theory Spec2Isabelle
  imports Main
begin

section \<open>Errors\<close>

text \<open>
  The Python sources signal failure by \<^verbatim>\<open>assert\<close> (AssertionError) and by
  \<^verbatim>\<open>raise ValueError(...)\<close> / \<^verbatim>\<open>raise RuntimeError(...)\<close>.  The exception class is
  the constructor of \<open>error\<close>; the formatted message is a constructor of \<open>message\<close>
  that carries the values interpolated into the f-string.
\<close>

type_synonym hostname = string

datatype message =
    NoHostsFound
      \<comment> \<open>\<^verbatim>\<open>No hosts found in {hostfile_path}\<close>\<close>
  | HostNotFound hostname
      \<comment> \<open>\<^verbatim>\<open>Host: {host} was not found\<close>\<close>
  | HostSlots hostname int int
      \<comment> \<open>\<^verbatim>\<open>Host {host} has {slots} slot(s), but {tensor_parallel} slot(s) are required\<close>\<close>
  | NotSufficientGPUs int int
      \<comment> \<open>\<^verbatim>\<open>Not sufficient GPUs for {replica_num} replica(s), only {allocated_num} replica(s) can be deployed\<close>\<close>
  | NoMessage
      \<comment> \<open>an \<^verbatim>\<open>assert\<close> without a message\<close>
  | GpuCountNotMet int int
      \<comment> \<open>\<^verbatim>\<open>Available GPU count: {torch.cuda.device_count()} does not meet the required gpu count: {num_gpus}\<close>\<close>
  | GpuCountNotPositive
      \<comment> \<open>\<^verbatim>\<open>GPU count must be greater than 0\<close>\<close>
  | ServerCrashed
      \<comment> \<open>\<^verbatim>\<open>server crashed for some reason, unable to proceed\<close>\<close>
  | ServerAlreadyRunning int
      \<comment> \<open>\<^verbatim>\<open>Server is already running on port {self.port_number}, please shutdown to use different port.\<close>\<close>
  | GrpcClientNotSetup
      \<comment> \<open>\<^verbatim>\<open>grpc client has not been setup when this model was created\<close>\<close>
  | UnknownTask
      \<comment> \<open>\<^verbatim>\<open>unknown task\<close>\<close>
  | BaseDirSet
      \<comment> \<open>\<^verbatim>\<open>please unset 'base_dir' it will be set w.r.t. the deployment 'model_path'\<close>\<close>
  | MissingKey string
      \<comment> \<open>\<^verbatim>\<open>Missing key={k} in checkpoint_dict\<close>\<close>
  | ZeroWithMetaTensor
      \<comment> \<open>\<^verbatim>\<open>ZeRO-Inference does not support meta tensors.\<close>\<close>
  | BloomDtype
      \<comment> \<open>\<^verbatim>\<open>Bloom models only support fp16/int8.\<close>\<close>
  | BloomCudaGraph
      \<comment> \<open>\<^verbatim>\<open>Bloom models do not support CUDA Graph.\<close>\<close>
  | DeployRankMismatch int int
      \<comment> \<open>\<^verbatim>\<open>{len(deploy_rank)} rank(s) provided in 'deploy_rank' does not align with tensor_parallel size of {tensor_parallel}\<close>\<close>
  | AmlDirNotAbsolute
      \<comment> \<open>\<^verbatim>\<open>AZUREML_MODEL_DIR={aml_model_dir} must be an absolute path.\<close>\<close>
  | ModelPathNotRelative string
      \<comment> \<open>\<^verbatim>\<open>model_path={model_path} must be relative to append w/ AML path.\<close>\<close>
  | ModelCheckFailed
      \<comment> \<open>an assertion of \<^verbatim>\<open>mii.utils.check_if_task_and_model_is_valid\<close> or of
          \<^verbatim>\<open>check_if_task_and_model_is_supported\<close>\<close>
  | MetaTensorAndSysMem
      \<comment> \<open>\<^verbatim>\<open>`meta_tensor` and `load_with_sys_mem` cannot be active at the same time.\<close>\<close>
  | ZeroFp16Dtype
      \<comment> \<open>\<^verbatim>\<open>ZeRO FP16 enabled, `dtype` must be set to `torch.float16`\<close>\<close>
  | ZeroFp32Dtype
      \<comment> \<open>\<^verbatim>\<open>ZeRO FP16 disabled, `dtype` must be set to `torch.float32`\<close>\<close>
  | DeepSpeedAndZero
      \<comment> \<open>\<^verbatim>\<open>DeepSpeed and ZeRO cannot both be enabled, select only one\<close>\<close>

datatype error =
    AssertionError message
  | ValueError message
  | RuntimeError message
  | AttributeError
  | IndexError
  | KeyError string
  | RpcError string
      \<comment> \<open>the exception of a failed gRPC call (connection error, remote exception)\<close>

section \<open>Task kinds and Python values\<close>

text \<open>
  The task kinds are the members of \<^verbatim>\<open>mii.Tasks\<close> that the client compares against,
  and \<open>TEXT2IMG\<close> (named in the docstring of \<^verbatim>\<open>deploy\<close>), for which the client has
  no branch.
\<close>

datatype Tasks =
    TEXT_GENERATION | TEXT_CLASSIFICATION | QUESTION_ANSWERING | FILL_MASK
  | TOKEN_CLASSIFICATION | CONVERSATIONAL | TEXT2IMG

text \<open>The values of a dictionary typed \<^verbatim>\<open>Dict[str, Any]\<close> or of a request dictionary.\<close>

datatype pyval =
    PyNone | PyBool bool | PyInt int | PyStr string | PyList "pyval list"
  | PyDict "(string \<times> pyval) list"

text \<open>Python's truth value of such a value.\<close>

fun truthy :: "pyval \<Rightarrow> bool" where
  "truthy PyNone = False"
| "truthy (PyBool b) = b"
| "truthy (PyInt n) = (n \<noteq> 0)"
| "truthy (PyStr s) = (s \<noteq> [])"
| "truthy (PyList xs) = (xs \<noteq> [])"
| "truthy (PyDict kvs) = (kvs \<noteq> [])"

datatype torch_dtype = torch_float16 | torch_float32 | torch_int8 | torch_bfloat16

section \<open>Replica planner: \<^verbatim>\<open>_allocate_processes\<close>\<close>

text \<open>
  \<^verbatim>\<open>fetch_hostfile\<close> belongs to DeepSpeed; its result, the resource pool, is the first
  parameter of the model: \<open>None\<close> when no hostfile is found, otherwise the ordered
  dictionary host \<open>\<rightarrow>\<close> slots as the list of its items in iteration order.
  A replica pool is the list of \<open>(host, gpu_indices)\<close> pairs the planner appends to.
\<close>

type_synonym resource_pool = "(hostname \<times> int) list"
type_synonym replica_pool = "(hostname \<times> int list) list"
type_synonym gpu_index_map = "(hostname \<times> int list) list"

text \<open>\<^verbatim>\<open>range(a, b)\<close> as the list of its elements.\<close>

definition range_list :: "int \<Rightarrow> int \<Rightarrow> int list" where
  "range_list a b = [a..b - 1]"

text \<open>
  The \<^verbatim>\<open>while available_on_host >= tensor_parallel\<close> loop for one host.  The state is
  \<open>(available_on_host, replica_pool, allocated_num)\<close>; the loop leaves by its
  condition, by \<^verbatim>\<open>break\<close> or by the \<^verbatim>\<open>raise\<close>.
\<close>

function carve_host ::
  "hostname \<Rightarrow> int \<Rightarrow> int \<Rightarrow> int \<Rightarrow> int \<Rightarrow> replica_pool \<Rightarrow> int \<Rightarrow> error + (replica_pool \<times> int)"
where
  "carve_host host slots tensor_parallel replica_num available_on_host pool allocated_num =
     (if available_on_host \<ge> tensor_parallel then
        if allocated_num \<ge> replica_num then Inr (pool, allocated_num)
        else if slots < tensor_parallel then
          Inl (ValueError (HostSlots host slots tensor_parallel))
        else
          let allocated_num_on_host = slots - available_on_host in
          carve_host host slots tensor_parallel replica_num
            (available_on_host - tensor_parallel)
            (pool @ [(host, range_list allocated_num_on_host
                              (allocated_num_on_host + tensor_parallel))])
            (allocated_num + 1)
      else Inr (pool, allocated_num))"
  by pat_completeness auto
termination
  by (relation "measure (\<lambda>(host, slots, tp, replica_num, avail, pool, allocated_num).
        nat (replica_num - allocated_num))") auto

declare carve_host.simps [simp del]

text \<open>The \<^verbatim>\<open>for host, slots in resource_pool.items()\<close> loop around it.\<close>

fun carve_hosts ::
  "resource_pool \<Rightarrow> int \<Rightarrow> int \<Rightarrow> replica_pool \<Rightarrow> int \<Rightarrow> error + (replica_pool \<times> int)"
where
  "carve_hosts [] tensor_parallel replica_num pool allocated_num = Inr (pool, allocated_num)"
| "carve_hosts ((host, slots) # rest) tensor_parallel replica_num pool allocated_num =
     (case carve_host host slots tensor_parallel replica_num slots pool allocated_num of
        Inl e \<Rightarrow> Inl e
      | Inr (pool', allocated_num') \<Rightarrow>
          carve_hosts rest tensor_parallel replica_num pool' allocated_num')"

text \<open>
  Explicit placement: the first loop over \<^verbatim>\<open>GPU_index_map\<close> holds the two assertions,
  the second appends \<^verbatim>\<open>(host, GPU_index_map[host])\<close>.
\<close>

fun check_index_map :: "resource_pool \<Rightarrow> int \<Rightarrow> hostname list \<Rightarrow> error + unit" where
  "check_index_map rp tensor_parallel [] = Inr ()"
| "check_index_map rp tensor_parallel (host # hosts) =
     (case map_of rp host of
        None \<Rightarrow> Inl (AssertionError (HostNotFound host))
      | Some slots \<Rightarrow>
          if \<not> slots \<ge> tensor_parallel
          then Inl (AssertionError (HostSlots host slots tensor_parallel))
          else check_index_map rp tensor_parallel hosts)"

definition pinned_pool :: "gpu_index_map \<Rightarrow> replica_pool" where
  "pinned_pool gm = concat (map (\<lambda>host. case map_of gm host of
                                           None \<Rightarrow> [] | Some idx \<Rightarrow> [(host, idx)])
                               (map fst gm))"

text \<open>\<^verbatim>\<open>_allocate_processes\<close> of \<^verbatim>\<open>mii/config.py\<close>: returns the pool and the index map.\<close>

definition config_allocate_processes ::
  "resource_pool option \<Rightarrow> int \<Rightarrow> int \<Rightarrow> gpu_index_map option
     \<Rightarrow> error + (replica_pool \<times> gpu_index_map option)"
where
  "config_allocate_processes resource_pool tensor_parallel replica_num GPU_index_map =
     (case resource_pool of
        None \<Rightarrow> Inl (AssertionError NoHostsFound)
      | Some rp \<Rightarrow>
          if \<not> length rp > 0 then Inl (AssertionError NoHostsFound)
          else
            (case GPU_index_map of
               Some gm \<Rightarrow>
                 (case check_index_map rp tensor_parallel (map fst gm) of
                    Inl e \<Rightarrow> Inl e
                  | Inr _ \<Rightarrow> Inr (pinned_pool gm, GPU_index_map))
             | None \<Rightarrow>
                 (case carve_hosts rp tensor_parallel replica_num [] 0 of
                    Inl e \<Rightarrow> Inl e
                  | Inr (pool, allocated_num) \<Rightarrow>
                      if allocated_num < replica_num
                      then Inl (ValueError (NotSufficientGPUs replica_num allocated_num))
                      else Inr (pool, GPU_index_map))))"

text \<open>
  \<^verbatim>\<open>_allocate_processes\<close> of \<^verbatim>\<open>mii/deployment.py\<close>: the same two branches and the same
  loops (the message of the final \<^verbatim>\<open>ValueError\<close> starts with \<^verbatim>\<open>No sufficient GPUs\<close>
  there and interpolates the same two numbers); it returns the pool alone.
\<close>

definition deployment_allocate_processes ::
  "resource_pool option \<Rightarrow> int \<Rightarrow> int \<Rightarrow> gpu_index_map option \<Rightarrow> error + replica_pool"
where
  "deployment_allocate_processes resource_pool tensor_parallel num_replicas gpu_index_map =
     (case resource_pool of
        None \<Rightarrow> Inl (AssertionError NoHostsFound)
      | Some rp \<Rightarrow>
          if \<not> length rp > 0 then Inl (AssertionError NoHostsFound)
          else
            (case gpu_index_map of
               Some gm \<Rightarrow>
                 (case check_index_map rp tensor_parallel (map fst gm) of
                    Inl e \<Rightarrow> Inl e
                  | Inr _ \<Rightarrow> Inr (pinned_pool gm))
             | None \<Rightarrow>
                 (case carve_hosts rp tensor_parallel num_replicas [] 0 of
                    Inl e \<Rightarrow> Inl e
                  | Inr (pool, allocated_num) \<Rightarrow>
                      if allocated_num < num_replicas
                      then Inl (ValueError (NotSufficientGPUs num_replicas allocated_num))
                      else Inr pool)))"

text \<open>
  The planner as the specification words it: the \<open>k\<close>-th carve on a host takes the
  slots \<open>[k * tensorParallelDegree, (k + 1) * tensorParallelDegree)\<close>; a host of
  \<open>slots\<close> slots has room for \<open>slots div tensorParallelDegree\<close> carves; hosts
  are taken in catalog order.
\<close>

definition spec_host_windows :: "hostname \<Rightarrow> int \<Rightarrow> int \<Rightarrow> replica_pool" where
  "spec_host_windows host slots tp =
     map (\<lambda>k. (host, [int k * tp..(int k + 1) * tp - 1])) [0..<nat (slots div tp)]"

definition spec_windows :: "resource_pool \<Rightarrow> int \<Rightarrow> replica_pool" where
  "spec_windows rp tp = concat (map (\<lambda>(host, slots). spec_host_windows host slots tp) rp)"

section \<open>Port allocator\<close>

text \<open>
  \<^verbatim>\<open>port_map\<close> is a dictionary from host name to the set of ports reserved on that
  host.  It is mutated in place; the model threads it through.
\<close>

type_synonym port_map = "hostname \<rightharpoonup> int set"

text \<open>
  Record fields are global constants, so each field carries a prefix that names its
  class: \<open>rc_\<close> for \<^verbatim>\<open>ReplicaConfig\<close>, \<open>dc_\<close> for \<^verbatim>\<open>DeploymentConfig\<close>,
  \<open>mii_\<close> for \<^verbatim>\<open>MIIConfig\<close>.
\<close>

record ReplicaConfig =
  rc_hostname :: hostname
  rc_tensor_parallel_ports :: "int list"
  rc_torch_dist_port :: int
  rc_gpu_indices :: "int list"

text \<open>
  The port block of one replica: lines 247--256 of \<^verbatim>\<open>mii/config.py\<close>, which are
  lines 192--201 of \<^verbatim>\<open>mii/deployment.py\<close> as well.
  \<^verbatim>\<open>
  if hostname not in port_map:
      port_map[hostname] = set()
  base_port = port_number + i * tensor_parallel + port_offset
  if base_port in port_map[hostname]:
      base_port = max(port_map[hostname]) + 1
  tensor_parallel_ports = list(range(base_port, base_port + tensor_parallel))
  for i in range(base_port, base_port + tensor_parallel):
      port_map[hostname].add(i)
  \<close>
  \<open>reserved\<close> is \<^verbatim>\<open>port_map[hostname]\<close> after the first statement.  The inner
  \<^verbatim>\<open>for\<close> loop reuses the name \<^verbatim>\<open>i\<close> of the replica index, so the value of
  \<^verbatim>\<open>i\<close> after the loop is part of the result: the last port added, or the replica
  index when the range is empty.
\<close>

definition reserve_ports ::
  "int \<Rightarrow> int \<Rightarrow> int \<Rightarrow> port_map \<Rightarrow> int \<Rightarrow> hostname \<Rightarrow> port_map \<times> int list \<times> int"
where
  "reserve_ports port_number tensor_parallel port_offset port_map i hostname =
     (let reserved = (case port_map hostname of None \<Rightarrow> {} | Some s \<Rightarrow> s);
          base_port = port_number + i * tensor_parallel + port_offset;
          base_port = (if base_port \<in> reserved then Max reserved + 1 else base_port);
          tensor_parallel_ports = range_list base_port (base_port + tensor_parallel);
          (reserved, i) = fold (\<lambda>j (s, i). (insert j s, j))
                            (range_list base_port (base_port + tensor_parallel)) (reserved, i)
      in (port_map(hostname \<mapsto> reserved), tensor_parallel_ports, i))"

subsection \<open>\<^verbatim>\<open>generate_replica_configs\<close> of \<^verbatim>\<open>mii/config.py\<close>\<close>

text \<open>
  The \<^verbatim>\<open>for i, (hostname, gpu_indices) in enumerate(replica_pool)\<close> loop.
  \<^verbatim>\<open>enumerate\<close> supplies the index of each iteration, whatever the body did to
  \<^verbatim>\<open>i\<close>; \<^verbatim>\<open>replica_torch_dist_port = torch_dist_port + (100 * i)\<close> reads
  \<^verbatim>\<open>i\<close> after the inner loop.
\<close>

fun replica_loop ::
  "int \<Rightarrow> int \<Rightarrow> int \<Rightarrow> int \<Rightarrow> port_map \<Rightarrow> int \<Rightarrow> replica_pool \<Rightarrow> ReplicaConfig list
     \<Rightarrow> port_map \<times> ReplicaConfig list"
where
  "replica_loop port_number tensor_parallel port_offset torch_dist_port port_map i []
     replica_configs = (port_map, replica_configs)"
| "replica_loop port_number tensor_parallel port_offset torch_dist_port port_map i
     ((hostname, gpu_indices) # rest) replica_configs =
     (case reserve_ports port_number tensor_parallel port_offset port_map i hostname of
        (port_map', tensor_parallel_ports, i') \<Rightarrow>
          let replica_torch_dist_port = torch_dist_port + 100 * i' in
          replica_loop port_number tensor_parallel port_offset torch_dist_port port_map' (i + 1)
            rest
            (replica_configs @
               [\<lparr>rc_hostname = hostname, rc_tensor_parallel_ports = tensor_parallel_ports,
                 rc_torch_dist_port = replica_torch_dist_port,
                 rc_gpu_indices = gpu_indices\<rparr>]))"

text \<open>
  The fields of \<^verbatim>\<open>DeploymentConfig\<close>, in the order of the class, and the fields of
  \<^verbatim>\<open>MIIConfig\<close> that \<^verbatim>\<open>generate_replica_configs\<close> reads or writes.  \<open>dc_dtype\<close> holds
  the torch dtype that the validators compare it with.
\<close>

record DeploymentConfig =
  dc_deployment_name :: string
  dc_load_with_sys_mem :: bool
  dc_meta_tensor :: bool
  dc_hf_auth_token :: "string option"
  dc_deploy_rank :: "int list option"
  dc_torch_dist_port :: int
  dc_replica_num :: int
  dc_replica_configs :: "ReplicaConfig list"
  dc_profile_model_time :: bool
  dc_skip_model_check :: bool
  dc_trust_remote_code :: bool
  dc_model :: string
  dc_task :: Tasks
  dc_dtype :: torch_dtype
  dc_model_path :: string
  dc_checkpoint_dict :: "(string \<times> pyval) list option"
  dc_max_tokens :: int
  dc_GPU_index_map :: "gpu_index_map option"
  dc_enable_deepspeed :: bool
  dc_enable_zero :: bool
  dc_ds_config :: "(string \<times> pyval) list"
  dc_tensor_parallel :: int
  dc_enable_cuda_graph :: bool
  dc_replace_with_kernel_inject :: bool

text \<open>The keyword arguments of the class with every optional field at its default.\<close>

definition default_fields :: "string \<Rightarrow> string \<Rightarrow> Tasks \<Rightarrow> DeploymentConfig" where
  "default_fields deployment_name model task =
     \<lparr>dc_deployment_name = deployment_name, dc_load_with_sys_mem = False,
      dc_meta_tensor = False, dc_hf_auth_token = None, dc_deploy_rank = None,
      dc_torch_dist_port = 29500, dc_replica_num = 1, dc_replica_configs = [],
      dc_profile_model_time = False, dc_skip_model_check = False,
      dc_trust_remote_code = False, dc_model = model, dc_task = task,
      dc_dtype = torch_float32, dc_model_path = [], dc_checkpoint_dict = None,
      dc_max_tokens = 1024, dc_GPU_index_map = None, dc_enable_deepspeed = True,
      dc_enable_zero = False, dc_ds_config = [], dc_tensor_parallel = 1,
      dc_enable_cuda_graph = False, dc_replace_with_kernel_inject = True\<rparr>"

record MIIConfig =
  mii_deployment_configs :: "(string \<times> DeploymentConfig) list option"
  mii_port_number :: int
  mii_port_map :: port_map

text \<open>
  The loop over \<^verbatim>\<open>values.get("deployment_configs").values()\<close>.  \<open>fetched\<close> is
  \<^verbatim>\<open>fetch_hostfile(hostfile)\<close>; \<open>done\<close> holds the deployments already updated.
  A deployment that already has replica configs ends the whole validator
  (\<^verbatim>\<open>return values\<close>).
\<close>

fun deployments_loop ::
  "resource_pool option \<Rightarrow> int \<Rightarrow> int \<Rightarrow> (string \<times> DeploymentConfig) list \<Rightarrow> port_map
     \<Rightarrow> (string \<times> DeploymentConfig) list
     \<Rightarrow> error + (port_map \<times> (string \<times> DeploymentConfig) list)"
where
  "deployments_loop fetched port_number port_offset [] port_map done = Inr (port_map, done)"
| "deployments_loop fetched port_number port_offset ((name, deployment_config) # rest)
     port_map done =
     (if dc_replica_configs deployment_config \<noteq> [] then
        if \<not> int (length (dc_replica_configs deployment_config)) = dc_replica_num deployment_config
        then Inl (AssertionError NoMessage)
        else Inr (port_map, done @ (name, deployment_config) # rest)
      else
        case config_allocate_processes fetched (dc_tensor_parallel deployment_config)
               (dc_replica_num deployment_config) (dc_GPU_index_map deployment_config) of
          Inl e \<Rightarrow> Inl e
        | Inr (replica_pool, GPU_index_map') \<Rightarrow>
            (case replica_loop port_number (dc_tensor_parallel deployment_config) port_offset
                    (dc_torch_dist_port deployment_config) port_map 0 replica_pool [] of
               (port_map', replica_configs') \<Rightarrow>
                 deployments_loop fetched port_number port_offset rest port_map'
                   (done @ [(name, deployment_config
                               \<lparr>dc_GPU_index_map := GPU_index_map',
                                dc_replica_configs := replica_configs'\<rparr>)])))"

definition generate_replica_configs :: "resource_pool option \<Rightarrow> MIIConfig \<Rightarrow> error + MIIConfig" where
  "generate_replica_configs fetched values =
     (let port_offset = 1 in
      case mii_deployment_configs values of
        None \<Rightarrow> Inl AttributeError
      | Some dcs \<Rightarrow>
          (case deployments_loop fetched (mii_port_number values) port_offset dcs (mii_port_map values) [] of
             Inl e \<Rightarrow> Inl e
           | Inr (port_map', dcs') \<Rightarrow>
               Inr (values\<lparr>mii_deployment_configs := Some dcs', mii_port_map := port_map'\<rparr>)))"

subsection \<open>\<^verbatim>\<open>allocate_processes\<close> of \<^verbatim>\<open>mii/deployment.py\<close>\<close>

text \<open>
  The attributes of a deployment that \<^verbatim>\<open>allocate_processes\<close> reads:
  \<open>dep_hostfile\<close> is \<^verbatim>\<open>fetch_hostfile(deployment.hostfile)\<close>, \<open>dep_task\<close> is
  \<^verbatim>\<open>get_task_name(getattr(deployment, TASK_NAME_KEY))\<close>.  The replica configs built
  there carry the task and the deployment name as well, and are collected in one
  \<^verbatim>\<open>LoadBalancerConfig\<close>.
\<close>

record Deployment =
  dep_hostfile :: "resource_pool option"
  dep_tensor_parallel :: int
  dep_replica_num :: int
  dep_gpu_index_map :: "gpu_index_map option"
  dep_task :: string
  dep_deployment_name :: string

record LBReplicaConfig = ReplicaConfig +
  rc_task :: string
  rc_deployment_name :: string

record LoadBalancerConfig =
  lb_port :: int
  lb_replica_configs :: "LBReplicaConfig list"

text \<open>
  The \<^verbatim>\<open>enumerate(replica_pool)\<close> loop of \<^verbatim>\<open>allocate_processes\<close>; here
  \<^verbatim>\<open>torch_dist_port = mii_config.torch_dist_port + i\<close>, again after the inner loop.
\<close>

fun lb_replica_loop ::
  "int \<Rightarrow> int \<Rightarrow> int \<Rightarrow> int \<Rightarrow> string \<Rightarrow> string \<Rightarrow> port_map \<Rightarrow> int \<Rightarrow> replica_pool
     \<Rightarrow> LBReplicaConfig list \<Rightarrow> port_map \<times> LBReplicaConfig list"
where
  "lb_replica_loop port_number tensor_parallel port_offset mii_torch_dist_port task name
     port_map i [] replica_configs = (port_map, replica_configs)"
| "lb_replica_loop port_number tensor_parallel port_offset mii_torch_dist_port task name
     port_map i ((hostname, gpu_indices) # rest) replica_configs =
     (case reserve_ports port_number tensor_parallel port_offset port_map i hostname of
        (port_map', tensor_parallel_ports, i') \<Rightarrow>
          let torch_dist_port = mii_torch_dist_port + i' in
          lb_replica_loop port_number tensor_parallel port_offset mii_torch_dist_port task name
            port_map' (i + 1) rest
            (replica_configs @
               [\<lparr>rc_hostname = hostname, rc_tensor_parallel_ports = tensor_parallel_ports,
                 rc_torch_dist_port = torch_dist_port, rc_gpu_indices = gpu_indices,
                 rc_task = task, rc_deployment_name = name\<rparr>]))"

fun allocate_loop ::
  "int \<Rightarrow> int \<Rightarrow> int \<Rightarrow> (string \<times> Deployment) list \<Rightarrow> port_map \<Rightarrow> LBReplicaConfig list
     \<Rightarrow> error + (port_map \<times> LBReplicaConfig list)"
where
  "allocate_loop port_number port_offset mii_torch_dist_port [] port_map replica_configs =
     Inr (port_map, replica_configs)"
| "allocate_loop port_number port_offset mii_torch_dist_port ((key, deployment) # rest)
     port_map replica_configs =
     (case deployment_allocate_processes (dep_hostfile deployment)
             (dep_tensor_parallel deployment) (dep_replica_num deployment)
             (dep_gpu_index_map deployment) of
        Inl e \<Rightarrow> Inl e
      | Inr replica_pool \<Rightarrow>
          (case lb_replica_loop port_number (dep_tensor_parallel deployment) port_offset
                  mii_torch_dist_port (dep_task deployment) (dep_deployment_name deployment)
                  port_map 0 replica_pool replica_configs of
             (port_map', replica_configs') \<Rightarrow>
               allocate_loop port_number port_offset mii_torch_dist_port rest port_map'
                 replica_configs'))"

text \<open>
  \<open>mii_port_number'\<close> and \<open>mii_torch_dist_port\<close> are \<^verbatim>\<open>mii_config.port_number\<close> and
  \<^verbatim>\<open>mii_config.torch_dist_port\<close>.
\<close>

definition allocate_processes ::
  "(string \<times> Deployment) list \<Rightarrow> port_map \<Rightarrow> int \<Rightarrow> int
     \<Rightarrow> error + (LoadBalancerConfig \<times> port_map)"
where
  "allocate_processes deployments port_map mii_port_number' mii_torch_dist_port =
     (let replica_configs = []; port_offset = 1 in
      case allocate_loop mii_port_number' port_offset mii_torch_dist_port deployments port_map
             replica_configs of
        Inl e \<Rightarrow> Inl e
      | Inr (port_map', replica_configs') \<Rightarrow>
          Inr (\<lparr>lb_port = mii_port_number', lb_replica_configs = replica_configs'\<rparr>,
               port_map'))"

section \<open>Construction and serialization of \<^verbatim>\<open>DeploymentConfig\<close>\<close>

text \<open>
  What the validators read from outside the configuration: the environment variable
  \<^verbatim>\<open>AZUREML_MODEL_DIR\<close>, the constant \<^verbatim>\<open>MII_MODEL_PATH_DEFAULT\<close> of \<^verbatim>\<open>mii.constants\<close>, and
  whether the two checks of \<^verbatim>\<open>mii.utils\<close> pass for a task and a model.
\<close>

record config_env =
  os_AZUREML_MODEL_DIR :: "string option"
  const_MII_MODEL_PATH_DEFAULT :: string
  task_and_model_is_valid :: "Tasks \<Rightarrow> string \<Rightarrow> bool"
  task_and_model_is_supported :: "Tasks \<Rightarrow> string \<Rightarrow> bool"

text \<open>\<^verbatim>\<open>s.startswith(p)\<close>, \<^verbatim>\<open>sub in s\<close>, and \<^verbatim>\<open>os.path.isabs\<close>, \<^verbatim>\<open>os.path.join\<close> on POSIX.\<close>

fun starts_with :: "string \<Rightarrow> string \<Rightarrow> bool" where
  "starts_with s [] = True"
| "starts_with [] (p # ps) = False"
| "starts_with (c # s) (p # ps) = (c = p \<and> starts_with s ps)"

fun contains_str :: "string \<Rightarrow> string \<Rightarrow> bool" where
  "contains_str sub [] = (sub = [])"
| "contains_str sub (c # s) = (starts_with (c # s) sub \<or> contains_str sub s)"

definition isabs :: "string \<Rightarrow> bool" where
  "isabs path = starts_with path ''/''"

definition path_join :: "string \<Rightarrow> string \<Rightarrow> string" where
  "path_join a b =
     (if starts_with b ''/'' then b
      else if a = [] \<or> last a = CHR ''/'' then a @ b
      else a @ ''/'' @ b)"

text \<open>\<^verbatim>\<open>d.get(key, default)\<close> on a dictionary.\<close>

definition dict_get :: "(string \<times> pyval) list \<Rightarrow> string \<Rightarrow> pyval \<Rightarrow> pyval" where
  "dict_get d key dflt = (case map_of d key of None \<Rightarrow> dflt | Some v \<Rightarrow> v)"

text \<open>
  The field validator of \<^verbatim>\<open>checkpoint_dict\<close>.  (The other field validator,
  \<^verbatim>\<open>deploy_rank_to_list\<close>, wraps a value that is not a list into a list; the field of
  the record is a list or \<open>None\<close> already, which it leaves as it is.)
\<close>

fun first_missing_key :: "(string \<times> pyval) list \<Rightarrow> string list \<Rightarrow> string option" where
  "first_missing_key field_value [] = None"
| "first_missing_key field_value (k # ks) =
     (if \<not> truthy (dict_get field_value k (PyStr [])) then Some k
      else first_missing_key field_value ks)"

definition checkpoint_dict_valid :: "DeploymentConfig \<Rightarrow> error + DeploymentConfig" where
  "checkpoint_dict_valid values =
     (case dc_checkpoint_dict values of
        None \<Rightarrow> Inr values
      | Some field_value \<Rightarrow>
          if truthy (dict_get field_value ''base_dir'' (PyStr []))
          then Inl (ValueError BaseDirSet)
          else
            (case first_missing_key field_value
                    [''checkpoints'', ''parallelization'', ''version'', ''type''] of
               Some k \<Rightarrow> Inl (ValueError (MissingKey k))
             | None \<Rightarrow> Inr values))"

text \<open>The root validators, in the order of the class.\<close>

definition zero_or_meta :: "DeploymentConfig \<Rightarrow> error + DeploymentConfig" where
  "zero_or_meta values =
     (if dc_enable_zero values \<and> \<not> (\<not> dc_meta_tensor values)
      then Inl (AssertionError ZeroWithMetaTensor)
      else Inr values)"

definition bloom_model_valid :: "DeploymentConfig \<Rightarrow> error + DeploymentConfig" where
  "bloom_model_valid values =
     (if contains_str ''bigscience/bloom'' (dc_model values) then
        if \<not> dc_dtype values \<in> set [torch_int8, torch_float16]
        then Inl (AssertionError BloomDtype)
        else if \<not> (\<not> dc_enable_cuda_graph values)
        then Inl (AssertionError BloomCudaGraph)
        else Inr values
      else Inr values)"

definition deploy_rank_valid :: "DeploymentConfig \<Rightarrow> error + DeploymentConfig" where
  "deploy_rank_valid values =
     (let tensor_parallel = dc_tensor_parallel values;
          deploy_rank = (case dc_deploy_rank values of
                           None \<Rightarrow> range_list 0 tensor_parallel
                         | Some deploy_rank \<Rightarrow> deploy_rank)
      in if \<not> tensor_parallel = int (length deploy_rank)
         then Inl (AssertionError (DeployRankMismatch (int (length deploy_rank)) tensor_parallel))
         else Inr (values\<lparr>dc_deploy_rank := Some deploy_rank\<rparr>))"

text \<open>
  \<^verbatim>\<open>set_model_path\<close>.  The class has no field \<^verbatim>\<open>deployment_type\<close>, so
  \<^verbatim>\<open>values.get("deployment_type")\<close> is \<^verbatim>\<open>None\<close> and an empty path becomes the default
  path.  An environment variable that is set to the empty string is false in
  \<^verbatim>\<open>if aml_model_dir\<close>.
\<close>

definition set_model_path :: "config_env \<Rightarrow> DeploymentConfig \<Rightarrow> error + DeploymentConfig" where
  "set_model_path env values =
     (let model_path = dc_model_path values;
          model_path = (if model_path = [] then const_MII_MODEL_PATH_DEFAULT env else model_path)
      in case os_AZUREML_MODEL_DIR env of
           None \<Rightarrow> Inr (values\<lparr>dc_model_path := model_path\<rparr>)
         | Some aml_model_dir \<Rightarrow>
             if aml_model_dir = [] then Inr (values\<lparr>dc_model_path := model_path\<rparr>)
             else if \<not> isabs aml_model_dir then Inl (AssertionError AmlDirNotAbsolute)
             else if \<not> (\<not> isabs model_path)
             then Inl (AssertionError (ModelPathNotRelative model_path))
             else Inr (values\<lparr>dc_model_path := path_join aml_model_dir model_path\<rparr>))"

definition validate_model_and_task :: "config_env \<Rightarrow> DeploymentConfig \<Rightarrow> error + DeploymentConfig" where
  "validate_model_and_task env values =
     (let task = dc_task values; model = dc_model values in
      if \<not> dc_skip_model_check values then
        if \<not> task_and_model_is_valid env task model then Inl (AssertionError ModelCheckFailed)
        else if dc_enable_deepspeed values \<and> \<not> task_and_model_is_supported env task model
        then Inl (AssertionError ModelCheckFailed)
        else Inr (values\<lparr>dc_skip_model_check := True\<rparr>)
      else Inr (values\<lparr>dc_skip_model_check := True\<rparr>))"

definition meta_tensor_or_sys_mem :: "DeploymentConfig \<Rightarrow> error + DeploymentConfig" where
  "meta_tensor_or_sys_mem values =
     (if dc_meta_tensor values \<and> dc_load_with_sys_mem values
      then Inl (ValueError MetaTensorAndSysMem)
      else Inr values)"

text \<open>
  \<^verbatim>\<open>values.get("ds_config").get("fp16", {}).get("enabled", False)\<close>: the second
  \<^verbatim>\<open>get\<close> needs a dictionary.
\<close>

definition fp16_enabled :: "(string \<times> pyval) list \<Rightarrow> error + bool" where
  "fp16_enabled ds_config =
     (case dict_get ds_config ''fp16'' (PyDict []) of
        PyDict fp16 \<Rightarrow> Inr (truthy (dict_get fp16 ''enabled'' (PyBool False)))
      | _ \<Rightarrow> Inl AttributeError)"

definition zero_dtype_valid :: "DeploymentConfig \<Rightarrow> error + DeploymentConfig" where
  "zero_dtype_valid values =
     (if dc_enable_zero values then
        (case fp16_enabled (dc_ds_config values) of
           Inl e \<Rightarrow> Inl e
         | Inr enabled \<Rightarrow>
             if enabled then
               if \<not> dc_dtype values = torch_float16 then Inl (AssertionError ZeroFp16Dtype)
               else Inr values
             else
               if \<not> dc_dtype values = torch_float32 then Inl (AssertionError ZeroFp32Dtype)
               else Inr values)
      else Inr values)"

definition deepspeed_or_zero :: "DeploymentConfig \<Rightarrow> error + DeploymentConfig" where
  "deepspeed_or_zero values =
     (if \<not> (\<not> (dc_enable_deepspeed values \<and> dc_enable_zero values))
      then Inl (AssertionError DeepSpeedAndZero)
      else Inr values)"

text \<open>
  \<^verbatim>\<open>DeploymentConfig(**config_dict)\<close>: the field validator, then the root validators in
  the order of the class, each on the values the one before returned.  pydantic
  gathers the errors of all validators in one \<^verbatim>\<open>ValidationError\<close>; the model returns the
  first of them.
\<close>

definition and_then ::
  "error + DeploymentConfig \<Rightarrow> (DeploymentConfig \<Rightarrow> error + DeploymentConfig)
     \<Rightarrow> error + DeploymentConfig"
where
  "and_then r validator = (case r of Inl e \<Rightarrow> Inl e | Inr values \<Rightarrow> validator values)"

definition DeploymentConfig_init :: "config_env \<Rightarrow> DeploymentConfig \<Rightarrow> error + DeploymentConfig" where
  "DeploymentConfig_init env config_dict =
     and_then (and_then (and_then (and_then (and_then (and_then (and_then (and_then
       (checkpoint_dict_valid config_dict)
       zero_or_meta) bloom_model_valid) deploy_rank_valid) (set_model_path env))
       (validate_model_and_task env)) meta_tensor_or_sys_mem) zero_dtype_valid)
       deepspeed_or_zero"

text \<open>
  Modelled from the spec: the JSON text of a configuration and its base64 encoding are
  written and read back by pydantic, \<^verbatim>\<open>json\<close> and \<^verbatim>\<open>base64\<close>, which are not part of the
  repository.  The specification requires the encoding to be round-trippable, so the
  artifact is represented by the dictionary of field values that it decodes to.
  \<open>serialize_config\<close> is the encoding in \<^verbatim>\<open>_initialize_service\<close>
  (\<^verbatim>\<open>base64.urlsafe_b64encode(config.json().encode()).decode()\<close>), and
  \<open>b64_encoded_config\<close> is the function of that name in
  \<^verbatim>\<open>mii/launch/multi_gpu_server.py\<close>.
\<close>

datatype artifact = Base64Json DeploymentConfig

definition serialize_config :: "DeploymentConfig \<Rightarrow> artifact" where
  "serialize_config config = Base64Json config"

definition b64_encoded_config :: "config_env \<Rightarrow> artifact \<Rightarrow> error + DeploymentConfig" where
  "b64_encoded_config env config_str =
     (case config_str of Base64Json config_dict \<Rightarrow> DeploymentConfig_init env config_dict)"

section \<open>\<^verbatim>\<open>MIIServerClient\<close> of \<^verbatim>\<open>mii/server_client.py\<close>\<close>

type_synonym request_dict = "(string \<times> pyval) list"

datatype rpc_method =
    GeneratorReply | ClassificationReply | QuestionAndAnswerReply | FillMaskReply
  | TokenClassificationReply | ConversationalReply

datatype rpc_request =
    SingleStringRequest pyval
  | QARequest pyval pyval
  | ConversationRequest pyval pyval pyval pyval

type_synonym response = string

text \<open>
  What becomes of an awaited call: \<open>None\<close> when it never completes, otherwise the
  exception it raises or the reply it returns.
\<close>

type_synonym outcome = "(error + response) option"

datatype subprocess = Popen

text \<open>
  What the client observes of the world outside:
  \<^item> \<open>env_device_count\<close>: \<^verbatim>\<open>torch.cuda.device_count()\<close>;
  \<^item> \<open>env_socket_open_at_launch port\<close>: \<^verbatim>\<open>_is_socket_open(port)\<close> in
    \<^verbatim>\<open>_initialize_service\<close>, before the server is launched;
  \<^item> \<open>env_socket_open k port\<close>: \<^verbatim>\<open>_is_socket_open(port)\<close> in the \<open>k\<close>-th
    iteration of the waiting loop;
  \<^item> \<open>env_process_exited k\<close>: whether \<^verbatim>\<open>self.process.wait(1)\<close> returns in the
    \<open>k\<close>-th iteration (the launched process has exited) instead of timing out;
  \<^item> \<open>env_rpc port method request\<close>: the outcome of the call of \<open>method\<close> on the
    stub whose channel is \<^verbatim>\<open>localhost:{port}\<close>;
  \<^item> \<open>env_local_response request_dict\<close>: the value of \<^verbatim>\<open>_request_response\<close>, which
    runs the model loaded in this process.
\<close>

record environment =
  env_device_count :: int
  env_socket_open_at_launch :: "int \<Rightarrow> bool"
  env_socket_open :: "nat \<Rightarrow> int \<Rightarrow> bool"
  env_process_exited :: "nat \<Rightarrow> bool"
  env_rpc :: "int \<Rightarrow> rpc_method \<Rightarrow> rpc_request \<Rightarrow> outcome"
  env_local_response :: "request_dict \<Rightarrow> error + response"

text \<open>
  The attributes of the client, with the prefix \<open>self_\<close>.  A stub is represented by
  the port of its channel.  The model loaded in this process (\<^verbatim>\<open>self.model\<close>) and the
  event loop are not represented: the first is seen through \<open>env_local_response\<close>,
  the second through the outcomes of the calls.
\<close>

record MIIServerClient =
  self_task :: Tasks
  self_num_gpus :: int
  self_use_grpc_server :: bool
  self_initialize_service :: bool
  self_initialize_grpc_client :: bool
  self_port_number :: int
  self_process :: "subprocess option"
  self_stubs :: "int list"

definition get_num_gpus :: "environment \<Rightarrow> int \<Rightarrow> error + int" where
  "get_num_gpus env mii_tensor_parallel =
     (let num_gpus = mii_tensor_parallel in
      if \<not> env_device_count env \<ge> num_gpus
      then Inl (AssertionError (GpuCountNotMet (env_device_count env) num_gpus))
      else Inr num_gpus)"

definition is_server_process_alive :: "MIIServerClient \<Rightarrow> environment \<Rightarrow> nat \<Rightarrow> bool" where
  "is_server_process_alive self env k =
     (case self_process self of
        None \<Rightarrow> True
      | Some process \<Rightarrow> \<not> env_process_exited env k)"

text \<open>
  \<^verbatim>\<open>_wait_until_server_is_live\<close>.  The loop has no bound, so the model is a partial
  function: \<open>None\<close> is a wait that never ends.  \<open>k\<close> counts the iterations and
  \<open>slept\<close> logs the arguments of \<^verbatim>\<open>time.sleep\<close>; the result is the log together with
  either the \<^verbatim>\<open>RuntimeError\<close> or the normal return.
\<close>

partial_function (option) wait_loop ::
  "MIIServerClient \<Rightarrow> environment \<Rightarrow> nat \<Rightarrow> int list \<Rightarrow> (int list \<times> (error + unit)) option"
where
  "wait_loop self env k slept =
     (if \<not> is_server_process_alive self env k
      then Some (slept, Inl (RuntimeError ServerCrashed))
      else if \<not> env_socket_open env k (self_port_number self)
      then wait_loop self env (Suc k) (slept @ [4])
      else Some (slept @ [4], Inr ()))"

definition wait_until_server_is_live ::
  "MIIServerClient \<Rightarrow> environment \<Rightarrow> (int list \<times> (error + unit)) option"
where
  "wait_until_server_is_live self env = wait_loop self env 0 []"

text \<open>
  \<^verbatim>\<open>_initialize_service\<close> returns the process: \<open>None\<close> when the model is loaded in
  this process, the launched \<^verbatim>\<open>deepspeed\<close> process otherwise.
\<close>

definition initialize_service :: "MIIServerClient \<Rightarrow> environment \<Rightarrow> error + subprocess option" where
  "initialize_service self env =
     (if \<not> self_use_grpc_server self then Inr None
      else if env_socket_open_at_launch env (self_port_number self)
      then Inl (RuntimeError (ServerAlreadyRunning (self_port_number self)))
      else Inr (Some Popen))"

definition initialize_grpc_client :: "MIIServerClient \<Rightarrow> MIIServerClient" where
  "initialize_grpc_client self =
     self\<lparr>self_stubs := self_stubs self @
             map (\<lambda>i. self_port_number self + i) (range_list 0 (self_num_gpus self))\<rparr>"

text \<open>The last statement of \<^verbatim>\<open>__init__\<close>.\<close>

definition setup_grpc_client :: "MIIServerClient \<Rightarrow> MIIServerClient" where
  "setup_grpc_client self =
     (if self_initialize_grpc_client self \<and> self_use_grpc_server self
      then initialize_grpc_client (self\<lparr>self_stubs := []\<rparr>)
      else self)"

text \<open>
  \<^verbatim>\<open>__init__\<close>.  \<open>mii_tensor_parallel\<close> and \<open>mii_port_number'\<close> are the two fields
  of \<^verbatim>\<open>mii_configs\<close> it reads; \<open>task\<close> is \<^verbatim>\<open>mii.get_task(task_name)\<close>.
\<close>

definition init ::
  "environment \<Rightarrow> Tasks \<Rightarrow> int \<Rightarrow> int \<Rightarrow> bool \<Rightarrow> bool \<Rightarrow> bool \<Rightarrow> (error + MIIServerClient) option"
where
  "init env task mii_tensor_parallel mii_port_number' initialize_service' initialize_grpc_client'
     use_grpc_server =
     (case get_num_gpus env mii_tensor_parallel of
        Inl e \<Rightarrow> Some (Inl e)
      | Inr num_gpus \<Rightarrow>
          if \<not> num_gpus > 0 then Some (Inl (AssertionError GpuCountNotPositive))
          else
            let self = \<lparr>self_task = task, self_num_gpus = num_gpus,
                        self_use_grpc_server = (if num_gpus > 1 then True else use_grpc_server),
                        self_initialize_service = initialize_service',
                        self_initialize_grpc_client = initialize_grpc_client',
                        self_port_number = mii_port_number',
                        self_process = None, self_stubs = []\<rparr>
            in
            if self_initialize_service self then
              (case initialize_service self env of
                 Inl e \<Rightarrow> Some (Inl e)
               | Inr process \<Rightarrow>
                   let self = self\<lparr>self_process := process\<rparr> in
                   if self_use_grpc_server self then
                     (case wait_until_server_is_live self env of
                        None \<Rightarrow> None
                      | Some (slept, Inl e) \<Rightarrow> Some (Inl e)
                      | Some (slept, Inr u) \<Rightarrow> Some (Inr (setup_grpc_client self)))
                   else Some (Inr (setup_grpc_client self)))
            else Some (Inr (setup_grpc_client self)))"

subsection \<open>Queries\<close>











text \<open>
  A host listed in an explicit placement offends when the catalog does not have it or
  gives it fewer slots than the tensor-parallel degree; \<open>offence\<close> is the assertion
  error that names the host and, for a short host, its slots and the slots required.
\<close>

definition offending :: "resource_pool \<Rightarrow> int \<Rightarrow> hostname \<Rightarrow> bool" where
  "offending rp tp host = (case map_of rp host of None \<Rightarrow> True | Some s \<Rightarrow> s < tp)"

definition offence :: "resource_pool \<Rightarrow> int \<Rightarrow> hostname \<Rightarrow> error" where
  "offence rp tp host =
     (case map_of rp host of
        None \<Rightarrow> AssertionError (HostNotFound host)
      | Some s \<Rightarrow> AssertionError (HostSlots host s tp))"



text \<open>
  One deployment of two replicas of tensor-parallel degree 2 on a host of four slots,
  base port 50000, as \<^verbatim>\<open>generate_replica_configs\<close> and as \<^verbatim>\<open>allocate_processes\<close>
  receive it.
\<close>

definition two_replica_values :: MIIConfig where
  "two_replica_values =
     \<lparr>mii_deployment_configs =
        Some [(''d'', (default_fields ''d'' ''gpt2'' TEXT_GENERATION)
                        \<lparr>dc_replica_num := 2, dc_tensor_parallel := 2\<rparr>)],
      mii_port_number = 50000, mii_port_map = Map.empty\<rparr>"

definition two_replica_deployments :: "(string \<times> Deployment) list" where
  "two_replica_deployments =
     [(''d'', \<lparr>dep_hostfile = Some [(''h'', 4)], dep_tensor_parallel = 2, dep_replica_num = 2,
               dep_gpu_index_map = None, dep_task = ''text-generation'',
               dep_deployment_name = ''d''\<rparr>)]"

text \<open>
  Two deployments on the hosts \<open>h1\<close> (one slot) and \<open>h2\<close> (two slots): \<open>A\<close> with
  two replicas of degree 1, \<open>B\<close> with one replica of degree 2.
\<close>

definition shared_host_values :: MIIConfig where
  "shared_host_values =
     \<lparr>mii_deployment_configs =
        Some [(''A'', (default_fields ''A'' ''gpt2'' TEXT_GENERATION)
                        \<lparr>dc_replica_num := 2, dc_tensor_parallel := 1\<rparr>),
              (''B'', (default_fields ''B'' ''gpt2'' TEXT_GENERATION)
                        \<lparr>dc_replica_num := 1, dc_tensor_parallel := 2\<rparr>)],
      mii_port_number = 50050, mii_port_map = Map.empty\<rparr>"

definition shared_host_deployments :: "(string \<times> Deployment) list" where
  "shared_host_deployments =
     [(''A'', \<lparr>dep_hostfile = Some [(''h1'', 1), (''h2'', 2)], dep_tensor_parallel = 1,
               dep_replica_num = 2, dep_gpu_index_map = None, dep_task = ''text-generation'',
               dep_deployment_name = ''A''\<rparr>),
      (''B'', \<lparr>dep_hostfile = Some [(''h1'', 1), (''h2'', 2)], dep_tensor_parallel = 2,
               dep_replica_num = 1, dep_gpu_index_map = None, dep_task = ''text-generation'',
               dep_deployment_name = ''B''\<rparr>)]"

definition placed_ports :: "ReplicaConfig list \<Rightarrow> (hostname \<times> int list) list" where
  "placed_ports rcs = map (\<lambda>rc. (rc_hostname rc, rc_tensor_parallel_ports rc)) rcs"

text \<open>
  The ports of the shards of a client: shard \<open>i\<close> listens on \<open>port_number + i\<close>
  (\<^verbatim>\<open>port = args.server_port + local_rank\<close> in the launcher, \<^verbatim>\<open>localhost:{port_number + i}\<close>
  in the client).
\<close>

definition shard_ports :: "MIIServerClient \<Rightarrow> int list" where
  "shard_ports self = map (\<lambda>i. self_port_number self + i) (range_list 0 (self_num_gpus self))"

definition all_shard_ports_open :: "MIIServerClient \<Rightarrow> environment \<Rightarrow> nat \<Rightarrow> bool" where
  "all_shard_ports_open self env k = list_all (env_socket_open env k) (shard_ports self)"

text \<open>
  A client of two shards on port 50050, and environments for it: port 50050 accepts
  connections from poll \<open>opens\<close> on (never for \<open>None\<close>), no other port ever does; the
  launched process has exited from poll \<open>exits\<close> on (never for \<open>None\<close>); the call to the
  first shard fails and the call to every other shard returns a reply.
\<close>

definition two_shard_client :: MIIServerClient where
  "two_shard_client =
     \<lparr>self_task = TEXT_GENERATION, self_num_gpus = 2, self_use_grpc_server = True,
      self_initialize_service = True, self_initialize_grpc_client = True,
      self_port_number = 50050, self_process = Some Popen, self_stubs = [50050, 50051]\<rparr>"

definition launch_env :: "nat option \<Rightarrow> nat option \<Rightarrow> environment" where
  "launch_env opens exits =
     \<lparr>env_device_count = 2,
      env_socket_open_at_launch = (\<lambda>port. False),
      env_socket_open =
        (\<lambda>k port. port = 50050 \<and> (case opens of None \<Rightarrow> False | Some k0 \<Rightarrow> k0 \<le> k)),
      env_process_exited = (\<lambda>k. case exits of None \<Rightarrow> False | Some k1 \<Rightarrow> k1 \<le> k),
      env_rpc =
        (\<lambda>port method request.
           if port = 50050 then Some (Inl (RpcError ''unavailable'')) else Some (Inr ''reply'')),
      env_local_response = (\<lambda>request_dict. Inr ''local reply'')\<rparr>"

definition first_port_only_env :: environment where
  "first_port_only_env = launch_env (Some 0) (Some 1)"

text \<open>
  A configuration as it is built inside an Azure ML container: the environment
  variable \<^verbatim>\<open>AZUREML_MODEL_DIR\<close> is set, the model path is given relative to it, and
  the checks of task and model pass.  \<open>aml_config\<close> is the configuration that the
  constructor returns for these keyword arguments.
\<close>

definition aml_env :: config_env where
  "aml_env =
     \<lparr>os_AZUREML_MODEL_DIR = Some ''/var/azureml-app/azureml-models'',
      const_MII_MODEL_PATH_DEFAULT = ''/tmp/mii_models'',
      task_and_model_is_valid = (\<lambda>task model. True),
      task_and_model_is_supported = (\<lambda>task model. True)\<rparr>"

definition aml_config_dict :: DeploymentConfig where
  "aml_config_dict = (default_fields ''d'' ''gpt2'' TEXT_GENERATION)\<lparr>dc_model_path := ''model''\<rparr>"

definition aml_config :: DeploymentConfig where
  "aml_config =
     aml_config_dict\<lparr>dc_deploy_rank := Some [0], dc_skip_model_check := True,
                     dc_model_path := ''/var/azureml-app/azureml-models/model''\<rparr>"

section \<open>The planner computes the windows of the specification\<close>

lemma nat_div_small:
  "0 < tp \<Longrightarrow> slots < tp \<Longrightarrow> nat (slots div tp) = 0"
proof (cases "slots < 0")
  case True
  assume "0 < tp"
  with True have "slots div tp < 0" by (simp add: pos_imp_zdiv_neg_iff)
  then show ?thesis by simp
next
  case False
  assume "slots < tp"
  with False have "slots div tp = 0" by (simp add: div_pos_pos_trivial)
  then show ?thesis by simp
qed

lemma carve_host_closed:
  "0 < tp \<Longrightarrow> avail \<le> slots \<Longrightarrow>
   carve_host host slots tp n avail pool alloc =
     (let ws = take (nat (n - alloc))
                 (map (\<lambda>k. (host, [slots - avail + int k * tp..slots - avail + (int k + 1) * tp - 1]))
                      [0..<nat (avail div tp)])
      in Inr (pool @ ws, alloc + int (length ws)))"
proof (induction host slots tp n avail pool alloc rule: carve_host.induct)
  case (1 host slots tp n avail pool alloc)
  show ?case
  proof (cases "avail \<ge> tp")
    case False
    with "1.prems" have "nat (avail div tp) = 0"
      by (simp add: nat_div_small)
    with False show ?thesis by (subst carve_host.simps) simp
  next
    case ge: True
    show ?thesis
    proof (cases "alloc \<ge> n")
      case True
      with ge show ?thesis by (subst carve_host.simps) simp
    next
      case False
      from ge "1.prems" have s: "\<not> slots < tp" by simp
      from ge "1.prems" have d: "nat (avail div tp) = Suc (nat ((avail - tp) div tp))"
      proof -
        from ge "1.prems" have "avail div tp = (avail - tp) div tp + 1" and "0 \<le> (avail - tp) div tp"
          using div_add_self2[of tp "avail - tp"] by (simp_all add: pos_imp_zdiv_nonneg_iff)
        then show ?thesis by simp
      qed
      from False have t: "nat (n - alloc) = Suc (nat (n - (alloc + 1)))" by simp
      have IH: "carve_host host slots tp n (avail - tp)
            (pool @ [(host, range_list (slots - avail) (slots - avail + tp))]) (alloc + 1) =
         (let ws = take (nat (n - (alloc + 1)))
                 (map (\<lambda>k. (host, [slots - (avail - tp) + int k * tp..slots - (avail - tp) + (int k + 1) * tp - 1]))
                      [0..<nat ((avail - tp) div tp)])
          in Inr ((pool @ [(host, range_list (slots - avail) (slots - avail + tp))]) @ ws, alloc + 1 + int (length ws)))"
        using "1.IH"[OF ge False s refl] "1.prems" by simp
      have m: "map (\<lambda>k. (host, [slots - avail + int k * tp..slots - avail + (int k + 1) * tp - 1]))
                      [0..<Suc (nat ((avail - tp) div tp))]
            = (host, range_list (slots - avail) (slots - avail + tp)) #
              map (\<lambda>k. (host, [slots - (avail - tp) + int k * tp..slots - (avail - tp) + (int k + 1) * tp - 1]))
                      [0..<nat ((avail - tp) div tp)]"
        by (simp add: upt_conv_Cons map_Suc_upt[symmetric] range_list_def algebra_simps del: upt_Suc)
      show ?thesis
        apply (subst carve_host.simps)
        apply (simp only: ge False s if_True if_False Let_def IH d t m take_Suc_Cons)
        apply (simp add: Let_def)
        done
    qed
  qed
qed

lemma carve_host_spec:
  "0 < tp \<Longrightarrow>
   carve_host host slots tp n slots pool alloc =
     (let ws = take (nat (n - alloc)) (spec_host_windows host slots tp)
      in Inr (pool @ ws, alloc + int (length ws)))"
  using carve_host_closed[of tp slots slots host n pool alloc]
  by (simp add: spec_host_windows_def)

lemma carve_hosts_spec:
  "0 < tp \<Longrightarrow>
   carve_hosts rp tp n pool alloc =
     (let ws = take (nat (n - alloc)) (spec_windows rp tp)
      in Inr (pool @ ws, alloc + int (length ws)))"
proof (induction rp arbitrary: pool alloc)
  case Nil
  then show ?case by (simp add: spec_windows_def)
next
  case (Cons a rp)
  obtain host slots where a: "a = (host, slots)" by (cases a)
  define hs where "hs = spec_host_windows host slots tp"
  define rs where "rs = spec_windows rp tp"
  define m where "m = nat (n - alloc)"
  have sw: "spec_windows (a # rp) tp = hs @ rs"
    by (simp add: spec_windows_def a hs_def rs_def)
  have n: "nat (n - (alloc + int (length (take m hs)))) = m - length hs"
    unfolding m_def by (cases "length hs \<le> nat (n - alloc)") (auto simp add: min_def)
  have step: "carve_host host slots tp n slots pool alloc
                = Inr (pool @ take m hs, alloc + int (length (take m hs)))"
    using Cons.prems by (simp add: carve_host_spec Let_def hs_def m_def)
  have rest: "carve_hosts rp tp n (pool @ take m hs) (alloc + int (length (take m hs)))
                = Inr ((pool @ take m hs) @ take (m - length hs) rs,
                       alloc + int (length (take m hs)) + int (length (take (m - length hs) rs)))"
    using Cons.prems by (simp only: Cons.IH Let_def n rs_def)
  have "carve_hosts (a # rp) tp n pool alloc
          = Inr (pool @ take m (hs @ rs), alloc + int (length (take m (hs @ rs))))"
    unfolding a carve_hosts.simps step sum.case prod.case rest
    by (simp add: min_def)
  then show ?case by (simp only: sw Let_def m_def)
qed

lemma config_planner_closed:
  "0 < tp \<Longrightarrow> rp \<noteq> [] \<Longrightarrow>
   config_allocate_processes (Some rp) tp n None =
     (if int (length (spec_windows rp tp)) < n
      then Inl (ValueError (NotSufficientGPUs n (int (length (spec_windows rp tp)))))
      else Inr (take (nat n) (spec_windows rp tp), None))"
  by (auto simp add: config_allocate_processes_def carve_hosts_spec Let_def min_def)

lemma deployment_planner_closed:
  "0 < tp \<Longrightarrow> rp \<noteq> [] \<Longrightarrow>
   deployment_allocate_processes (Some rp) tp n None =
     (if int (length (spec_windows rp tp)) < n
      then Inl (ValueError (NotSufficientGPUs n (int (length (spec_windows rp tp)))))
      else Inr (take (nat n) (spec_windows rp tp)))"
  by (auto simp add: deployment_allocate_processes_def carve_hosts_spec Let_def min_def)

text \<open>
  C1.  Without explicit placement the planner walks the hosts in catalog order and
  carves windows of \<open>tensorParallelDegree\<close> slots, the \<open>k\<close>-th carve on a host being
  \<open>[k * tensorParallelDegree, (k + 1) * tensorParallelDegree)\<close>, and stops after
  \<open>replicaCount\<close> assignments: whenever the catalog has room for them, the result
  is the first \<open>replicaCount\<close> windows of \<open>spec_windows\<close>.  The scenario of the
  specification is catalog \<open>{h1: 4, h2: 2}\<close>, degree 2, 3 replicas.
\<close>

theorem planner_carves_windows:
  assumes "0 < tp" and "rp \<noteq> []" and "n \<le> int (length (spec_windows rp tp))"
  shows "config_allocate_processes (Some rp) tp n None
           = Inr (take (nat n) (spec_windows rp tp), None)
       \<and> deployment_allocate_processes (Some rp) tp n None
           = Inr (take (nat n) (spec_windows rp tp))"
  using assms by (simp add: config_planner_closed deployment_planner_closed)

theorem planner_carves_windows_scenario:
  "(0::int) < 2 \<and> [(''h1'', 4), (''h2'', 2::int)] \<noteq> []
   \<and> 3 \<le> int (length (spec_windows [(''h1'', 4), (''h2'', 2)] 2))
   \<and> config_allocate_processes (Some [(''h1'', 4), (''h2'', 2)]) 2 3 None
         = Inr ([(''h1'', [0, 1]), (''h1'', [2, 3]), (''h2'', [0, 1])], None)
   \<and> deployment_allocate_processes (Some [(''h1'', 4), (''h2'', 2)]) 2 3 None
         = Inr [(''h1'', [0, 1]), (''h1'', [2, 3]), (''h2'', [0, 1])]"
proof -
  have sw: "spec_windows [(''h1'', 4), (''h2'', 2)] 2
              = [(''h1'', [0, 1]), (''h1'', [2, 3]), (''h2'', [0, 1])]"
    by code_simp
  show ?thesis
    using planner_carves_windows [of 2 "[(''h1'', 4), (''h2'', 2)]" 3]
    by (simp add: sw)
qed

lemma carve_host_no_raise:
  "(tp \<le> avail \<longrightarrow> tp \<le> slots) \<Longrightarrow>
   \<exists>pool' alloc'. carve_host host slots tp n avail pool alloc = Inr (pool', alloc')"
proof (induction host slots tp n avail pool alloc rule: carve_host.induct)
  case (1 host slots tp n avail pool alloc)
  show ?case
  proof (cases "tp \<le> avail \<and> \<not> n \<le> alloc")
    case False
    then show ?thesis by (subst carve_host.simps) auto
  next
    case True
    with "1.prems" have s: "\<not> slots < tp" by simp
    from True have a: "tp \<le> avail" and b: "\<not> n \<le> alloc" by simp_all
    have "\<exists>pool' alloc'. carve_host host slots tp n (avail - tp)
            (pool @ [(host, range_list (slots - avail) (slots - avail + tp))]) (alloc + 1)
            = Inr (pool', alloc')"
      using "1.IH"[OF a b s refl] s by simp
    then show ?thesis
      by (subst carve_host.simps) (simp add: a b s Let_def)
  qed
qed

lemma carve_hosts_no_raise:
  "\<exists>pool' alloc'. carve_hosts rp tp n pool alloc = Inr (pool', alloc')"
proof (induction rp arbitrary: pool alloc)
  case Nil
  show ?case by simp
next
  case (Cons a rp)
  obtain host slots where a: "a = (host, slots)" by (cases a)
  obtain p1 a1 where "carve_host host slots tp n slots pool alloc = Inr (p1, a1)"
    using carve_host_no_raise[of tp slots slots host n pool alloc] by auto
  with Cons.IH[of p1 a1] show ?case by (simp add: a)
qed

lemma carve_host_count:
  "carve_host host slots tp n avail pool alloc = Inr (pool', alloc') \<Longrightarrow>
   alloc' - alloc = int (length pool') - int (length pool)"
proof (induction host slots tp n avail pool alloc rule: carve_host.induct)
  case (1 host slots tp n avail pool alloc)
  show ?case
  proof (cases "tp \<le> avail \<and> \<not> n \<le> alloc \<and> \<not> slots < tp")
    case False
    with "1.prems" show ?thesis
      by (subst (asm) carve_host.simps) (auto split: if_splits)
  next
    case True
    then have a: "tp \<le> avail" and b: "\<not> n \<le> alloc" and c: "\<not> slots < tp" by simp_all
    from "1.prems" have "carve_host host slots tp n (avail - tp)
            (pool @ [(host, range_list (slots - avail) (slots - avail + tp))]) (alloc + 1)
            = Inr (pool', alloc')"
      by (subst (asm) carve_host.simps) (simp add: a b c Let_def)
    from "1.IH"[OF a b c refl this] show ?thesis by simp
  qed
qed

lemma carve_hosts_count:
  "carve_hosts rp tp n pool alloc = Inr (pool', alloc') \<Longrightarrow>
   alloc' - alloc = int (length pool') - int (length pool)"
proof (induction rp arbitrary: pool alloc)
  case Nil
  then show ?case by simp
next
  case (Cons a rp)
  obtain host slots where a: "a = (host, slots)" by (cases a)
  from Cons.prems obtain p1 a1 where
    1: "carve_host host slots tp n slots pool alloc = Inr (p1, a1)"
    and 2: "carve_hosts rp tp n p1 a1 = Inr (pool', alloc')"
    by (auto simp: a split: sum.splits)
  from carve_host_count[OF 1] Cons.IH[OF 2] show ?case by simp
qed

lemma planner_reports_allocated:
  "rp \<noteq> [] \<Longrightarrow>
   \<exists>pool allocated. carve_hosts rp tp n [] 0 = Inr (pool, allocated)
      \<and> allocated = int (length pool)
      \<and> config_allocate_processes (Some rp) tp n None
           = (if allocated < n then Inl (ValueError (NotSufficientGPUs n allocated))
              else Inr (pool, None))
      \<and> deployment_allocate_processes (Some rp) tp n None
           = (if allocated < n then Inl (ValueError (NotSufficientGPUs n allocated))
              else Inr pool)"
proof -
  assume rp: "rp \<noteq> []"
  obtain pool allocated where c: "carve_hosts rp tp n [] 0 = Inr (pool, allocated)"
    using carve_hosts_no_raise by blast
  from carve_hosts_count[OF c] have "allocated = int (length pool)" by simp
  with c rp show ?thesis
    by (simp add: config_allocate_processes_def deployment_allocate_processes_def)
qed

text \<open>
  C2.  Without explicit placement the loops over the hosts always end, with a pool of
  \<open>allocated\<close> assignments; when \<open>allocated\<close> is below \<open>replicaCount\<close> the planner
  fails with the \<^verbatim>\<open>ValueError\<close> whose message holds the requested number of replicas
  and the number allocated.  For a positive tensor-parallel degree the number
  allocated is the number of windows the hosts give.  The scenario of the
  specification is catalog \<open>{h1: 2}\<close>, degree 2, 2 replicas: requested 2, allocated 1.
\<close>

theorem planner_insufficient_capacity:
  assumes "rp \<noteq> []"
  shows "(\<exists>pool allocated.
            carve_hosts rp tp n [] 0 = Inr (pool, allocated) \<and> allocated = int (length pool)
            \<and> (allocated < n \<longrightarrow>
                  config_allocate_processes (Some rp) tp n None
                    = Inl (ValueError (NotSufficientGPUs n allocated))
                \<and> deployment_allocate_processes (Some rp) tp n None
                    = Inl (ValueError (NotSufficientGPUs n allocated))))
       \<and> (0 < tp \<and> int (length (spec_windows rp tp)) < n \<longrightarrow>
             config_allocate_processes (Some rp) tp n None
               = Inl (ValueError (NotSufficientGPUs n (int (length (spec_windows rp tp)))))
           \<and> deployment_allocate_processes (Some rp) tp n None
               = Inl (ValueError (NotSufficientGPUs n (int (length (spec_windows rp tp))))))"
proof -
  obtain pool allocated where
    "carve_hosts rp tp n [] 0 = Inr (pool, allocated)" "allocated = int (length pool)"
    "config_allocate_processes (Some rp) tp n None
       = (if allocated < n then Inl (ValueError (NotSufficientGPUs n allocated))
          else Inr (pool, None))"
    "deployment_allocate_processes (Some rp) tp n None
       = (if allocated < n then Inl (ValueError (NotSufficientGPUs n allocated))
          else Inr pool)"
    using planner_reports_allocated[OF assms, of tp n] by blast
  then have "\<exists>pool allocated.
            carve_hosts rp tp n [] 0 = Inr (pool, allocated) \<and> allocated = int (length pool)
            \<and> (allocated < n \<longrightarrow>
                  config_allocate_processes (Some rp) tp n None
                    = Inl (ValueError (NotSufficientGPUs n allocated))
                \<and> deployment_allocate_processes (Some rp) tp n None
                    = Inl (ValueError (NotSufficientGPUs n allocated)))"
    by auto
  then show ?thesis
    using assms by (simp add: config_planner_closed deployment_planner_closed)
qed

theorem planner_insufficient_capacity_scenario:
  "(0::int) < 2 \<and> [(''h1'', 2::int)] \<noteq> []
   \<and> int (length (spec_windows [(''h1'', 2)] 2)) < 2
   \<and> spec_windows [(''h1'', 2)] 2 = [(''h1'', [0, 1])]
   \<and> config_allocate_processes (Some [(''h1'', 2)]) 2 2 None
         = Inl (ValueError (NotSufficientGPUs 2 1))
   \<and> deployment_allocate_processes (Some [(''h1'', 2)]) 2 2 None
         = Inl (ValueError (NotSufficientGPUs 2 1))"
proof -
  have sw: "spec_windows [(''h1'', 2)] 2 = [(''h1'', [0, 1])]"
    by code_simp
  show ?thesis
    using planner_insufficient_capacity [of "[(''h1'', 2)]" 2 2]
    by (simp add: sw)
qed

section \<open>Hosts that are too small or missing\<close>

lemma carve_host_skip:
  "slots < tp \<Longrightarrow> carve_host host slots tp n slots pool alloc = Inr (pool, alloc)"
  by (subst carve_host.simps) simp

lemma check_index_map_first:
  "\<forall>h \<in> set pre. \<exists>s. map_of rp h = Some s \<and> tp \<le> s \<Longrightarrow>
   check_index_map rp tp (pre @ hosts) = check_index_map rp tp hosts"
  by (induction pre) auto

lemma check_index_map_offender:
  "check_index_map rp tp (host # hosts) =
     (case map_of rp host of
        None \<Rightarrow> Inl (AssertionError (HostNotFound host))
      | Some s \<Rightarrow> if s < tp then Inl (AssertionError (HostSlots host s tp))
                  else check_index_map rp tp hosts)"
  by (simp split: option.splits)

lemma check_index_map_fails:
  assumes "host \<in> set hosts" "offending rp tp host"
  shows "\<exists>h \<in> set hosts. offending rp tp h \<and> check_index_map rp tp hosts = Inl (offence rp tp h)"
  using assms
proof (induction hosts)
  case Nil
  then show ?case by simp
next
  case (Cons h hosts)
  show ?case
  proof (cases "offending rp tp h")
    case True
    then have "check_index_map rp tp (h # hosts) = Inl (offence rp tp h)"
      by (auto simp: offending_def offence_def split: option.splits)
    with True show ?thesis by auto
  next
    case False
    with Cons.prems have "host \<in> set hosts" by auto
    from Cons.IH[OF this Cons.prems(2)] obtain h' where
      h': "h' \<in> set hosts" "offending rp tp h'" "check_index_map rp tp hosts = Inl (offence rp tp h')"
      by auto
    from False have "check_index_map rp tp (h # hosts) = check_index_map rp tp hosts"
      by (auto simp: offending_def split: option.splits)
    with h' show ?thesis by auto
  qed
qed

text \<open>
  C7.  In automatic mode a host with fewer slots than the tensor-parallel degree is
  passed over: the loop over the hosts continues with the next host in the same state,
  and the only errors of automatic planning are the empty catalog and the final
  shortage of replicas.  In explicit mode a listed host that is missing from the
  catalog or too small makes planning fail with the assertion error of an offending
  host (the first one in the order of the placement), which names the host and, for a
  short host, the slots it has and the slots required.
\<close>

theorem small_host_skipped_explicit_host_fails:
  "(slots < tp \<longrightarrow>
      carve_hosts ((host, slots) # rest) tp n pool alloc = carve_hosts rest tp n pool alloc)
   \<and> (\<forall>e. config_allocate_processes (Some rp) tp n None = Inl e \<or>
           deployment_allocate_processes (Some rp) tp n None = Inl e \<longrightarrow>
           e = AssertionError NoHostsFound \<or> (\<exists>allocated. e = ValueError (NotSufficientGPUs n allocated)))
   \<and> (rp \<noteq> [] \<and> h \<in> set (map fst gm) \<and> offending rp tp h \<longrightarrow>
        (\<exists>h' \<in> set (map fst gm). offending rp tp h'
           \<and> config_allocate_processes (Some rp) tp n (Some gm) = Inl (offence rp tp h')
           \<and> deployment_allocate_processes (Some rp) tp n (Some gm) = Inl (offence rp tp h')))
   \<and> (rp \<noteq> [] \<and> (\<forall>h' \<in> set (map fst pre). \<not> offending rp tp h') \<and> offending rp tp h \<longrightarrow>
          config_allocate_processes (Some rp) tp n (Some (pre @ (h, idx) # post))
            = Inl (offence rp tp h)
        \<and> deployment_allocate_processes (Some rp) tp n (Some (pre @ (h, idx) # post))
            = Inl (offence rp tp h))"
proof (intro conjI impI allI)
  assume "slots < tp"
  then show "carve_hosts ((host, slots) # rest) tp n pool alloc = carve_hosts rest tp n pool alloc"
    by (simp add: carve_host_skip)
next
  fix e
  assume e: "config_allocate_processes (Some rp) tp n None = Inl e \<or>
             deployment_allocate_processes (Some rp) tp n None = Inl e"
  obtain p a where pa: "carve_hosts rp tp n [] 0 = Inr (p, a)"
    using carve_hosts_no_raise by blast
  from e show "e = AssertionError NoHostsFound \<or> (\<exists>allocated. e = ValueError (NotSufficientGPUs n allocated))"
    by (auto simp: config_allocate_processes_def deployment_allocate_processes_def pa
             split: if_splits)
next
  assume a: "rp \<noteq> [] \<and> h \<in> set (map fst gm) \<and> offending rp tp h"
  then obtain h' where h': "h' \<in> set (map fst gm)" "offending rp tp h'"
      "check_index_map rp tp (map fst gm) = Inl (offence rp tp h')"
    using check_index_map_fails[of h "map fst gm" rp tp] by blast
  with a show "\<exists>h' \<in> set (map fst gm). offending rp tp h'
           \<and> config_allocate_processes (Some rp) tp n (Some gm) = Inl (offence rp tp h')
           \<and> deployment_allocate_processes (Some rp) tp n (Some gm) = Inl (offence rp tp h')"
    by (auto simp: config_allocate_processes_def deployment_allocate_processes_def)
next
  assume a: "rp \<noteq> [] \<and> (\<forall>h' \<in> set (map fst pre). \<not> offending rp tp h') \<and> offending rp tp h"
  then have ok: "\<forall>h \<in> set (map fst pre). \<exists>s. map_of rp h = Some s \<and> tp \<le> s"
    by (auto simp: offending_def split: option.splits)
  have "check_index_map rp tp (map fst (pre @ (h, idx) # post))
          = check_index_map rp tp (h # map fst post)"
    using check_index_map_first[OF ok, of "h # map fst post"] by simp
  also have "\<dots> = Inl (offence rp tp h)"
    using a by (auto simp: offending_def offence_def split: option.splits)
  finally have c: "check_index_map rp tp (map fst (pre @ (h, idx) # post)) = Inl (offence rp tp h)" .
  from a c show "config_allocate_processes (Some rp) tp n (Some (pre @ (h, idx) # post))
            = Inl (offence rp tp h)"
    by (simp add: config_allocate_processes_def)
  from a c show "deployment_allocate_processes (Some rp) tp n (Some (pre @ (h, idx) # post))
            = Inl (offence rp tp h)"
    by (simp add: deployment_allocate_processes_def)
qed


theorem small_host_skipped_explicit_host_fails_witness:
  "(1::int) < 2
   \<and> carve_hosts [(''h1'', 1), (''h2'', 2)] 2 2 [] 0 = carve_hosts [(''h2'', 2)] 2 2 [] 0
   \<and> config_allocate_processes (Some [(''h1'', 1), (''h2'', 2)]) 2 2 None
         = Inl (ValueError (NotSufficientGPUs 2 1))
   \<and> offending [(''h1'', 1), (''h2'', 2)] 2 ''h1''
   \<and> \<not> offending [(''h1'', 1), (''h2'', 2)] 2 ''h2''
   \<and> config_allocate_processes (Some [(''h1'', 1), (''h2'', 2)]) 2 2
         (Some [(''h2'', [0, 1]), (''h1'', [0, 1])])
         = Inl (AssertionError (HostSlots ''h1'' 1 2))
   \<and> deployment_allocate_processes (Some [(''h1'', 1), (''h2'', 2)]) 2 2
         (Some [(''h2'', [0, 1]), (''h1'', [0, 1])])
         = Inl (AssertionError (HostSlots ''h1'' 1 2))
   \<and> offending [(''h1'', 1), (''h2'', 2)] 2 ''h3''
   \<and> config_allocate_processes (Some [(''h1'', 1), (''h2'', 2)]) 2 2
         (Some [(''h2'', [0, 1]), (''h3'', [0, 1])])
         = Inl (AssertionError (HostNotFound ''h3''))"
proof -
  have o1: "offending [(''h1'', 1), (''h2'', 2)] 2 ''h1''"
    and o2: "\<not> offending [(''h1'', 1), (''h2'', 2)] 2 ''h2''"
    and o3: "offending [(''h1'', 1), (''h2'', 2)] 2 ''h3''"
    by (simp_all add: offending_def)
  have e1: "offence [(''h1'', 1), (''h2'', 2)] 2 ''h1'' = AssertionError (HostSlots ''h1'' 1 2)"
    and e3: "offence [(''h1'', 1), (''h2'', 2)] 2 ''h3'' = AssertionError (HostNotFound ''h3'')"
    by (simp_all add: offence_def)
  have auto_mode: "config_allocate_processes (Some [(''h1'', 1), (''h2'', 2)]) 2 2 None
         = Inl (ValueError (NotSufficientGPUs 2 1))"
    by code_simp
  note t1 = small_host_skipped_explicit_host_fails
      [where slots = 1 and tp = 2 and host = "''h1''" and rest = "[(''h2'', 2)]" and n = 2
         and pool = "[]" and alloc = 0 and rp = "[(''h1'', 1), (''h2'', 2)]"
         and h = "''h1''" and gm = "[(''h2'', [0, 1]), (''h1'', [0, 1])]"
         and pre = "[(''h2'', [0, 1])]" and idx = "[0, 1]" and post = "[]"]
  note t3 = small_host_skipped_explicit_host_fails
      [where slots = 1 and tp = 2 and host = "''h1''" and rest = "[(''h2'', 2)]" and n = 2
         and pool = "[]" and alloc = 0 and rp = "[(''h1'', 1), (''h2'', 2)]"
         and h = "''h3''" and gm = "[(''h2'', [0, 1]), (''h3'', [0, 1])]"
         and pre = "[(''h2'', [0, 1])]" and idx = "[0, 1]" and post = "[]"]
  from t1 t3 o1 o2 o3 e1 e3 auto_mode show ?thesis
    by simp
qed

section \<open>Port blocks\<close>











text \<open>
  C6.  The claim gives replica \<open>i\<close> the coordination port \<open>base + 100 * i\<close>, here
  29500 and 29600.  The code reads \<^verbatim>\<open>i\<close> after the inner loop over the shard ports has
  overwritten it with the last shard port: \<^verbatim>\<open>generate_replica_configs\<close> yields
  \<open>29500 + 100 * 50002\<close> and \<open>29500 + 100 * 50004\<close>, and \<^verbatim>\<open>allocate_processes\<close>
  yields \<open>29500 + 50002\<close> and \<open>29500 + 50004\<close>.
\<close>

theorem torch_dist_port_after_inner_loop:
  "map_sum id (map_option (map (\<lambda>(name, dc). (name, dc_torch_dist_port dc, dc_replica_configs dc)))
               \<circ> mii_deployment_configs)
     (generate_replica_configs (Some [(''h'', 4)]) two_replica_values)
     = Inr (Some [(''d'', 29500,
            [\<lparr>rc_hostname = ''h'', rc_tensor_parallel_ports = [50001, 50002],
              rc_torch_dist_port = 5029700, rc_gpu_indices = [0, 1]\<rparr>,
             \<lparr>rc_hostname = ''h'', rc_tensor_parallel_ports = [50003, 50004],
              rc_torch_dist_port = 5029900, rc_gpu_indices = [2, 3]\<rparr>])])
   \<and> map_sum id fst (allocate_processes two_replica_deployments Map.empty 50000 29500)
     = Inr \<lparr>lb_port = 50000,
            lb_replica_configs =
              [\<lparr>rc_hostname = ''h'', rc_tensor_parallel_ports = [50001, 50002],
                rc_torch_dist_port = 79502, rc_gpu_indices = [0, 1],
                rc_task = ''text-generation'', rc_deployment_name = ''d''\<rparr>,
               \<lparr>rc_hostname = ''h'', rc_tensor_parallel_ports = [50003, 50004],
                rc_torch_dist_port = 79504, rc_gpu_indices = [2, 3],
                rc_task = ''text-generation'', rc_deployment_name = ''d''\<rparr>]\<rparr>"
  by code_simp

text \<open>
  C4.  The claim says that a new port block never contains a port already reserved on
  its host.  Only the first port of a block is looked up in the reserved set: after
  deployment \<open>A\<close> has reserved port 50052 on \<open>h2\<close>, the replica of deployment
  \<open>B\<close> on \<open>h2\<close> starts at 50051, which is free, and gets the block 50051, 50052.
\<close>

theorem shard_ports_overlap_on_shared_host:
  "map_sum id (map_option (map (\<lambda>(name, dc). (name, placed_ports (dc_replica_configs dc))))
               \<circ> mii_deployment_configs)
     (generate_replica_configs (Some [(''h1'', 1), (''h2'', 2)]) shared_host_values)
     = Inr (Some [(''A'', [(''h1'', [50051]), (''h2'', [50052])]),
                  (''B'', [(''h2'', [50051, 50052])])])
   \<and> map_sum id (map (\<lambda>rc. (rc_deployment_name rc, rc_hostname rc, rc_tensor_parallel_ports rc))
                 \<circ> lb_replica_configs \<circ> fst)
     (allocate_processes shared_host_deployments Map.empty 50050 29500)
     = Inr [(''A'', ''h1'', [50051]), (''A'', ''h2'', [50052]), (''B'', ''h2'', [50051, 50052])]"
  by code_simp

section \<open>Startup and queries of the client\<close>

lemma wait_loop_continue:
  "\<forall>j<k. is_server_process_alive self env (m + j)
          \<and> \<not> env_socket_open env (m + j) (self_port_number self) \<Longrightarrow>
   wait_loop self env m slept = wait_loop self env (m + k) (slept @ replicate k 4)"
proof (induction k arbitrary: m slept)
  case 0
  show ?case by simp
next
  case (Suc k)
  from Suc.prems have now: "is_server_process_alive self env m"
      "\<not> env_socket_open env m (self_port_number self)"
    by (metis add.right_neutral zero_less_Suc)+
  from Suc.prems have later: "\<forall>j<k. is_server_process_alive self env (Suc m + j)
          \<and> \<not> env_socket_open env (Suc m + j) (self_port_number self)"
    by (metis Suc_less_eq add_Suc_shift)
  have "wait_loop self env m slept = wait_loop self env (Suc m) (slept @ [4])"
    using now by (subst wait_loop.simps) simp
  also have "\<dots> = wait_loop self env (Suc m + k) ((slept @ [4]) @ replicate k 4)"
    by (rule Suc.IH[OF later])
  finally show ?case by (simp add: replicate_app_Cons_same)
qed

lemma wait_loop_decides:
  "wait_loop self env m slept = Some r \<Longrightarrow>
   \<exists>k\<ge>m. \<not> is_server_process_alive self env k \<or> env_socket_open env k (self_port_number self)"
proof (induction rule: wait_loop.raw_induct[rotated 1, consumes 1])
  case (1 wait_loop' self env k slept r)
  show ?case
  proof (cases "is_server_process_alive self env k \<and> \<not> env_socket_open env k (self_port_number self)")
    case False
    then show ?thesis by blast
  next
    case True
    with 1(2) have "wait_loop' self env (Suc k) (slept @ [4]) = Some r" by simp
    from 1(1)[OF this] obtain j where "j \<ge> Suc k"
      "\<not> is_server_process_alive self env j \<or> env_socket_open env j (self_port_number self)"
      by blast
    then show ?thesis by (metis Suc_leD)
  qed
qed

text \<open>
  C8, as amended.  The waiting loop polls one port, \<^verbatim>\<open>self.port_number\<close> (the port of
  the first shard), and the launched process, once per iteration, and sleeps 4 seconds
  after every poll that did not raise.  At the first poll at which the process has
  exited it raises the \<^verbatim>\<open>RuntimeError\<close> (even if the port accepts a connection at that
  poll); otherwise, at the first poll at which the port accepts a connection it
  returns; if neither ever happens it never returns.  The ports of the other shards
  are not polled.
\<close>

theorem wait_polls_first_port_and_process:
  "((\<forall>j<k. is_server_process_alive self env j
             \<and> \<not> env_socket_open env j (self_port_number self))
     \<and> \<not> is_server_process_alive self env k \<longrightarrow>
        wait_until_server_is_live self env
          = Some (replicate k 4, Inl (RuntimeError ServerCrashed)))
   \<and> ((\<forall>j<k. is_server_process_alive self env j
             \<and> \<not> env_socket_open env j (self_port_number self))
     \<and> is_server_process_alive self env k
     \<and> env_socket_open env k (self_port_number self) \<longrightarrow>
        wait_until_server_is_live self env = Some (replicate (Suc k) 4, Inr ()))
   \<and> ((\<forall>j. is_server_process_alive self env j
             \<and> \<not> env_socket_open env j (self_port_number self)) \<longrightarrow>
        wait_until_server_is_live self env = None)"
proof (intro conjI impI)
  assume a: "(\<forall>j<k. is_server_process_alive self env j
             \<and> \<not> env_socket_open env j (self_port_number self))
     \<and> \<not> is_server_process_alive self env k"
  then have "wait_loop self env 0 [] = wait_loop self env (0 + k) ([] @ replicate k 4)"
    by (intro wait_loop_continue) simp
  also have "\<dots> = Some (replicate k 4, Inl (RuntimeError ServerCrashed))"
    using a by (subst wait_loop.simps) simp
  finally show "wait_until_server_is_live self env
          = Some (replicate k 4, Inl (RuntimeError ServerCrashed))"
    by (simp add: wait_until_server_is_live_def)
next
  assume a: "(\<forall>j<k. is_server_process_alive self env j
             \<and> \<not> env_socket_open env j (self_port_number self))
     \<and> is_server_process_alive self env k
     \<and> env_socket_open env k (self_port_number self)"
  then have "wait_loop self env 0 [] = wait_loop self env (0 + k) ([] @ replicate k 4)"
    by (intro wait_loop_continue) simp
  also have "\<dots> = Some (replicate k 4 @ [4], Inr ())"
    using a by (subst wait_loop.simps) simp
  finally show "wait_until_server_is_live self env = Some (replicate (Suc k) 4, Inr ())"
    by (simp add: wait_until_server_is_live_def replicate_append_same)
next
  assume a: "\<forall>j. is_server_process_alive self env j
             \<and> \<not> env_socket_open env j (self_port_number self)"
  show "wait_until_server_is_live self env = None"
  proof (cases "wait_until_server_is_live self env")
    case None
    then show ?thesis .
  next
    case (Some r)
    then have "wait_loop self env 0 [] = Some r"
      by (simp add: wait_until_server_is_live_def)
    from wait_loop_decides[OF this] a show ?thesis by blast
  qed
qed

text \<open>
  C8, as stated, fails: with two shards, the wait returns normally after its first poll
  although the port of the second shard accepts no connection at that poll, and the
  process exits right after.
\<close>

theorem live_with_a_shard_port_closed:
  "wait_until_server_is_live two_shard_client first_port_only_env = Some ([4], Inr ())
   \<and> shard_ports two_shard_client = [50050, 50051]
   \<and> \<not> env_socket_open first_port_only_env 0 50051
   \<and> \<not> all_shard_ports_open two_shard_client first_port_only_env 0
   \<and> env_process_exited first_port_only_env 1"
proof -
  have "wait_loop two_shard_client first_port_only_env 0 [] = Some ([4], Inr ())"
    by (subst wait_loop.simps)
       (simp add: two_shard_client_def first_port_only_env_def launch_env_def
          is_server_process_alive_def)
  moreover have "shard_ports two_shard_client = [50050, 50051]"
    by (simp add: shard_ports_def two_shard_client_def range_list_def upto_rec1)
  ultimately show ?thesis
    by (simp add: wait_until_server_is_live_def all_shard_ports_open_def)
       (simp add: first_port_only_env_def launch_env_def)
qed

theorem wait_polls_first_port_and_process_witness:
  "is_server_process_alive two_shard_client (launch_env (Some 2) None) 0
   \<and> \<not> env_socket_open (launch_env (Some 2) None) 0 (self_port_number two_shard_client)
   \<and> is_server_process_alive two_shard_client (launch_env (Some 2) None) 1
   \<and> \<not> env_socket_open (launch_env (Some 2) None) 1 (self_port_number two_shard_client)
   \<and> is_server_process_alive two_shard_client (launch_env (Some 2) None) 2
   \<and> env_socket_open (launch_env (Some 2) None) 2 (self_port_number two_shard_client)
   \<and> wait_until_server_is_live two_shard_client (launch_env (Some 2) None)
       = Some ([4, 4, 4], Inr ())
   \<and> \<not> is_server_process_alive two_shard_client (launch_env (Some 2) (Some 1)) 1
   \<and> wait_until_server_is_live two_shard_client (launch_env (Some 2) (Some 1))
       = Some ([4], Inl (RuntimeError ServerCrashed))
   \<and> wait_until_server_is_live two_shard_client (launch_env (Some 0) (Some 0))
       = Some ([], Inl (RuntimeError ServerCrashed))
   \<and> wait_until_server_is_live two_shard_client (launch_env None None) = None"
proof -
  note live = wait_polls_first_port_and_process
                [of 2 two_shard_client "launch_env (Some 2) None"]
  note dead = wait_polls_first_port_and_process
                [of 1 two_shard_client "launch_env (Some 2) (Some 1)"]
  note dead0 = wait_polls_first_port_and_process
                [of 0 two_shard_client "launch_env (Some 0) (Some 0)"]
  note never = wait_polls_first_port_and_process
                [of 0 two_shard_client "launch_env None None"]
  have two: "\<And>P. (\<forall>j<2::nat. P j) = (P 0 \<and> P 1)"
    by (auto simp: less_2_cases_iff)
  from live dead dead0 never show ?thesis
    by (simp add: two launch_env_def two_shard_client_def is_server_process_alive_def
          numeral_3_eq_3 numeral_2_eq_2)
qed














section \<open>Round trip of a deployment configuration\<close>

lemma validators_simps:
  "and_then (Inl e) f = Inl e" "and_then (Inr v) f = f v"
  by (simp_all add: and_then_def)

lemma init_steps:
  assumes "DeploymentConfig_init env d = Inr c"
  obtains v3 v4 v5 where
    "checkpoint_dict_valid d = Inr d" "zero_or_meta d = Inr d" "bloom_model_valid d = Inr d"
    "deploy_rank_valid d = Inr v3" "set_model_path env v3 = Inr v4"
    "validate_model_and_task env v4 = Inr v5" "meta_tensor_or_sys_mem v5 = Inr v5"
    "zero_dtype_valid v5 = Inr v5" "deepspeed_or_zero v5 = Inr v5" "c = v5"
proof -
  from assms have 1: "checkpoint_dict_valid d = Inr d"
    by (auto simp: DeploymentConfig_init_def and_then_def checkpoint_dict_valid_def
          split: sum.splits option.splits if_splits)
  with assms have 2: "zero_or_meta d = Inr d"
    by (auto simp: DeploymentConfig_init_def validators_simps zero_or_meta_def and_then_def
          split: sum.splits if_splits)
  with assms 1 have 3: "bloom_model_valid d = Inr d"
    by (auto simp: DeploymentConfig_init_def validators_simps bloom_model_valid_def and_then_def
          split: sum.splits if_splits)
  from assms 1 2 3 obtain v3 where 4: "deploy_rank_valid d = Inr v3"
    by (cases "deploy_rank_valid d") (auto simp: DeploymentConfig_init_def validators_simps)
  from assms 1 2 3 4 obtain v4 where 5: "set_model_path env v3 = Inr v4"
    by (cases "set_model_path env v3") (auto simp: DeploymentConfig_init_def validators_simps)
  from assms 1 2 3 4 5 obtain v5 where 6: "validate_model_and_task env v4 = Inr v5"
    by (cases "validate_model_and_task env v4") (auto simp: DeploymentConfig_init_def validators_simps)
  from assms 1 2 3 4 5 6 have 7: "meta_tensor_or_sys_mem v5 = Inr v5"
    by (auto simp: DeploymentConfig_init_def validators_simps meta_tensor_or_sys_mem_def and_then_def
          split: sum.splits if_splits)
  from assms 1 2 3 4 5 6 7 have 8: "zero_dtype_valid v5 = Inr v5"
    by (auto simp: DeploymentConfig_init_def validators_simps zero_dtype_valid_def and_then_def
          split: sum.splits if_splits)
  from assms 1 2 3 4 5 6 7 8 have 9: "deepspeed_or_zero v5 = Inr v5" and 10: "c = v5"
    by (auto simp: DeploymentConfig_init_def validators_simps deepspeed_or_zero_def
          split: sum.splits if_splits)
  from that 1 2 3 4 5 6 7 8 9 10 show thesis by blast
qed

lemma isabs_iff: "isabs p = (\<exists>rest. p = CHR ''/'' # rest)"
  by (cases p) (auto simp: isabs_def)

lemma isabs_path_join: "isabs a \<Longrightarrow> isabs (path_join a b)"
  by (auto simp: isabs_iff path_join_def isabs_def[symmetric])

lemma validate_again:
  "validate_model_and_task env v = Inr c \<Longrightarrow> validate_model_and_task env c = Inr c"
  by (auto simp: validate_model_and_task_def Let_def split: if_splits)

lemma validate_shape:
  "validate_model_and_task env v = Inr c \<Longrightarrow> c = v\<lparr>dc_skip_model_check := True\<rparr>"
  by (auto simp: validate_model_and_task_def Let_def split: if_splits)

lemma deploy_rank_shape:
  assumes "deploy_rank_valid d = Inr v"
  shows "\<exists>r. v = d\<lparr>dc_deploy_rank := Some r\<rparr> \<and> dc_tensor_parallel d = int (length r)"
proof (cases "dc_deploy_rank d")
  case None
  with assms have "v = d\<lparr>dc_deploy_rank := Some (range_list 0 (dc_tensor_parallel d))\<rparr>"
    and "dc_tensor_parallel d = int (length (range_list 0 (dc_tensor_parallel d)))"
    by (simp_all add: deploy_rank_valid_def Let_def split: if_splits)
  then show ?thesis by blast
next
  case (Some r)
  with assms have "v = d\<lparr>dc_deploy_rank := Some r\<rparr>" and "dc_tensor_parallel d = int (length r)"
    by (simp_all add: deploy_rank_valid_def Let_def split: if_splits)
  then show ?thesis by blast
qed

lemma set_model_path_shape:
  "set_model_path env d = Inr v \<Longrightarrow> v = d\<lparr>dc_model_path := dc_model_path v\<rparr>"
  by (cases "os_AZUREML_MODEL_DIR env")
     (simp_all add: set_model_path_def Let_def split: if_splits, auto)

lemma checkpoint_dict_valid_iff:
  "checkpoint_dict_valid d = Inr d \<longleftrightarrow>
     (case dc_checkpoint_dict d of
        None \<Rightarrow> True
      | Some fv \<Rightarrow> \<not> truthy (dict_get fv ''base_dir'' (PyStr []))
                  \<and> first_missing_key fv
                        [''checkpoints'', ''parallelization'', ''version'', ''type''] = None)"
  by (simp add: checkpoint_dict_valid_def split: option.splits del: first_missing_key.simps)

lemma checkpoint_dict_valid_cong:
  "checkpoint_dict_valid d = Inr d \<Longrightarrow> dc_checkpoint_dict c = dc_checkpoint_dict d \<Longrightarrow>
   checkpoint_dict_valid c = Inr c"
  by (simp only: checkpoint_dict_valid_iff)

lemma zero_or_meta_cong:
  "zero_or_meta d = Inr d \<Longrightarrow> dc_enable_zero c = dc_enable_zero d \<Longrightarrow>
   dc_meta_tensor c = dc_meta_tensor d \<Longrightarrow> zero_or_meta c = Inr c"
  by (simp add: zero_or_meta_def split: if_splits)

lemma bloom_model_valid_cong:
  "bloom_model_valid d = Inr d \<Longrightarrow> dc_model c = dc_model d \<Longrightarrow> dc_dtype c = dc_dtype d \<Longrightarrow>
   dc_enable_cuda_graph c = dc_enable_cuda_graph d \<Longrightarrow> bloom_model_valid c = Inr c"
  by (simp add: bloom_model_valid_def split: if_splits)

lemma deploy_rank_valid_fixed:
  "dc_deploy_rank c = Some r \<Longrightarrow> dc_tensor_parallel c = int (length r) \<Longrightarrow>
   deploy_rank_valid c = Inr c"
proof -
  assume a: "dc_deploy_rank c = Some r" "dc_tensor_parallel c = int (length r)"
  have "c\<lparr>dc_deploy_rank := dc_deploy_rank c\<rparr> = c" by simp
  with a show ?thesis by (simp add: deploy_rank_valid_def Let_def)
qed

lemma set_model_path_result:
  "set_model_path env d = Inr v \<Longrightarrow>
   os_AZUREML_MODEL_DIR env = None \<or> os_AZUREML_MODEL_DIR env = Some [] \<Longrightarrow>
   dc_model_path v = (if dc_model_path d = [] then const_MII_MODEL_PATH_DEFAULT env
                      else dc_model_path d)"
  by (auto simp add: set_model_path_def Let_def split: if_splits)

lemma set_model_path_stable:
  assumes env: "os_AZUREML_MODEL_DIR env = None \<or> os_AZUREML_MODEL_DIR env = Some []"
    and v: "set_model_path env d = Inr v" and c: "dc_model_path c = dc_model_path v"
  shows "set_model_path env c = Inr c"
proof -
  have "(if dc_model_path c = [] then const_MII_MODEL_PATH_DEFAULT env else dc_model_path c)
          = dc_model_path c"
    using set_model_path_result[OF v env] c by (simp split: if_splits)
  moreover have "c\<lparr>dc_model_path := dc_model_path c\<rparr> = c" by simp
  ultimately show ?thesis
    using env by (auto simp add: set_model_path_def Let_def)
qed

lemma set_model_path_rejects:
  assumes env: "os_AZUREML_MODEL_DIR env = Some dir" "dir \<noteq> []"
    and v: "set_model_path env d = Inr v" and c: "dc_model_path c = dc_model_path v"
  shows "set_model_path env c = Inl (AssertionError (ModelPathNotRelative (dc_model_path c)))"
proof -
  from env v have abs: "isabs dir"
    by (auto simp: set_model_path_def Let_def split: if_splits)
  from env v obtain mp where "dc_model_path v = path_join dir mp"
    by (auto simp: set_model_path_def Let_def split: if_splits)
  with abs have "isabs (dc_model_path v)"
    by (simp add: isabs_path_join)
  then have "isabs (dc_model_path c)" "dc_model_path c \<noteq> []"
    using c by (auto simp: isabs_iff)
  with env abs show ?thesis
    by (simp add: set_model_path_def Let_def)
qed

lemma init_fields:
  assumes init: "DeploymentConfig_init env d = Inr c"
  obtains v3 v4 r where
    "checkpoint_dict_valid d = Inr d" "zero_or_meta d = Inr d" "bloom_model_valid d = Inr d"
    "set_model_path env v3 = Inr v4"
    "validate_model_and_task env v4 = Inr c" "meta_tensor_or_sys_mem c = Inr c"
    "zero_dtype_valid c = Inr c" "deepspeed_or_zero c = Inr c"
    "c = d\<lparr>dc_deploy_rank := Some r, dc_model_path := dc_model_path v4,
            dc_skip_model_check := True\<rparr>"
    "dc_tensor_parallel d = int (length r)"
proof -
  from init obtain v3 v4 where
    s: "checkpoint_dict_valid d = Inr d" "zero_or_meta d = Inr d" "bloom_model_valid d = Inr d"
    "deploy_rank_valid d = Inr v3" "set_model_path env v3 = Inr v4"
    "validate_model_and_task env v4 = Inr c" "meta_tensor_or_sys_mem c = Inr c"
    "zero_dtype_valid c = Inr c" "deepspeed_or_zero c = Inr c"
    by (rule init_steps) blast
  from deploy_rank_shape[OF s(4)] obtain r where
    r: "v3 = d\<lparr>dc_deploy_rank := Some r\<rparr>" "dc_tensor_parallel d = int (length r)" by blast
  have "c = v4\<lparr>dc_skip_model_check := True\<rparr>" by (rule validate_shape[OF s(6)])
  also have "v4 = v3\<lparr>dc_model_path := dc_model_path v4\<rparr>" by (rule set_model_path_shape[OF s(5)])
  finally have "c = d\<lparr>dc_deploy_rank := Some r, dc_model_path := dc_model_path v4,
            dc_skip_model_check := True\<rparr>"
    by (simp add: r(1))
  with that s r show thesis by blast
qed

lemma init_prefix_again:
  assumes init: "DeploymentConfig_init env d = Inr c"
  shows "checkpoint_dict_valid c = Inr c" "zero_or_meta c = Inr c" "bloom_model_valid c = Inr c"
    "deploy_rank_valid c = Inr c"
    "\<exists>v3 v4. set_model_path env v3 = Inr v4 \<and> dc_model_path c = dc_model_path v4"
    "validate_model_and_task env c = Inr c" "meta_tensor_or_sys_mem c = Inr c"
    "zero_dtype_valid c = Inr c" "deepspeed_or_zero c = Inr c"
proof -
  from init obtain v3 v4 r where
    s: "checkpoint_dict_valid d = Inr d" "zero_or_meta d = Inr d" "bloom_model_valid d = Inr d"
    "set_model_path env v3 = Inr v4"
    "validate_model_and_task env v4 = Inr c" "meta_tensor_or_sys_mem c = Inr c"
    "zero_dtype_valid c = Inr c" "deepspeed_or_zero c = Inr c"
    and c: "c = d\<lparr>dc_deploy_rank := Some r, dc_model_path := dc_model_path v4,
            dc_skip_model_check := True\<rparr>"
    and r: "dc_tensor_parallel d = int (length r)"
    by (rule init_fields)
  have f: "dc_checkpoint_dict c = dc_checkpoint_dict d" "dc_enable_zero c = dc_enable_zero d"
    "dc_meta_tensor c = dc_meta_tensor d" "dc_model c = dc_model d" "dc_dtype c = dc_dtype d"
    "dc_enable_cuda_graph c = dc_enable_cuda_graph d" "dc_deploy_rank c = Some r"
    "dc_tensor_parallel c = dc_tensor_parallel d" "dc_model_path c = dc_model_path v4"
    by (subst c, simp)+
  show "checkpoint_dict_valid c = Inr c"
    by (rule checkpoint_dict_valid_cong[OF s(1) f(1)])
  show "zero_or_meta c = Inr c"
    by (rule zero_or_meta_cong[OF s(2) f(2) f(3)])
  show "bloom_model_valid c = Inr c"
    by (rule bloom_model_valid_cong[OF s(3) f(4) f(5) f(6)])
  show "deploy_rank_valid c = Inr c"
    by (rule deploy_rank_valid_fixed[OF f(7)]) (simp add: f(8) r)
  show "\<exists>v3 v4. set_model_path env v3 = Inr v4 \<and> dc_model_path c = dc_model_path v4"
    using s(4) f(9) by blast
  show "validate_model_and_task env c = Inr c"
    by (rule validate_again[OF s(5)])
  show "meta_tensor_or_sys_mem c = Inr c" "zero_dtype_valid c = Inr c" "deepspeed_or_zero c = Inr c"
    by (rule s)+
qed

lemma round_trip_without_aml_dir:
  assumes env: "os_AZUREML_MODEL_DIR env = None \<or> os_AZUREML_MODEL_DIR env = Some []"
    and init: "DeploymentConfig_init env d = Inr c"
  shows "b64_encoded_config env (serialize_config c) = Inr c"
proof -
  note p = init_prefix_again[OF init]
  from p(5) obtain v3 v4 where "set_model_path env v3 = Inr v4" "dc_model_path c = dc_model_path v4"
    by blast
  then have "set_model_path env c = Inr c"
    by (rule set_model_path_stable[OF env])
  then show ?thesis
    by (simp add: b64_encoded_config_def serialize_config_def DeploymentConfig_init_def
          validators_simps p)
qed

lemma round_trip_fails_with_aml_dir:
  assumes env: "os_AZUREML_MODEL_DIR env = Some dir" "dir \<noteq> []"
    and init: "DeploymentConfig_init env d = Inr c"
  shows "b64_encoded_config env (serialize_config c)
           = Inl (AssertionError (ModelPathNotRelative (dc_model_path c)))"
proof -
  note p = init_prefix_again[OF init]
  from p(5) obtain v3 v4 where "set_model_path env v3 = Inr v4" "dc_model_path c = dc_model_path v4"
    by blast
  then have "set_model_path env c = Inl (AssertionError (ModelPathNotRelative (dc_model_path c)))"
    by (rule set_model_path_rejects[OF env])
  then show ?thesis
    by (simp add: b64_encoded_config_def serialize_config_def DeploymentConfig_init_def
          validators_simps p)
qed

text \<open>
  C9.  The claim says that serializing a deployment configuration and reading it back
  gives a configuration equal to the original.  Reading back runs the validators
  again, and \<^verbatim>\<open>set_model_path\<close> then finds the model path already joined with
  \<^verbatim>\<open>AZUREML_MODEL_DIR\<close>, hence absolute, and its assertion fails: the configuration
  \<open>aml_config\<close>, which the constructor built, cannot be read back in the environment
  it was built in.  (By \<open>round_trip_fails_with_aml_dir\<close> this happens to every
  configuration built while the variable is set to a non-empty value; by
  \<open>round_trip_without_aml_dir\<close> the other validators accept their own results.)
\<close>

theorem reconstruction_fails_under_azureml_model_dir:
  "DeploymentConfig_init aml_env aml_config_dict = Inr aml_config
   \<and> b64_encoded_config aml_env (serialize_config aml_config)
       = Inl (AssertionError (ModelPathNotRelative ''/var/azureml-app/azureml-models/model''))"
  by code_simp

end
